theory Spec2Isabelle
  imports Complex_Main
begin

section \<open>Data model\<close>

text \<open>
  The engine computes on C \<open>float\<close>. The embedding keeps the scalar type as a type
  variable \<open>'a\<close> that only has to offer the operations the code writes (\<open>0\<close>, \<open>1\<close>,
  \<open>+\<close>, \<open>-\<close>, \<open>*\<close>, \<open>/\<close>, \<open><\<close>); the structural theorems hold for every such type,
  the algebraic ones are stated for exact arithmetic (a linearly ordered field). The type
  \<open>float32\<close> further down gives the passes the rounded arithmetic of the code.
\<close>

subsection \<open>Solver set indices (physics_world.h, enum b2SetType)\<close>

definition b2_staticSet :: int where
  "b2_staticSet = 0"

definition b2_disabledSet :: int where
  "b2_disabledSet = 1"

definition b2_awakeSet :: int where
  "b2_awakeSet = 2"

definition b2_firstSleepingSet :: int where
  "b2_firstSleepingSet = 3"

subsection \<open>Joint types (types.h, enum b2JointType)\<close>

datatype b2JointType =
    b2_distanceJoint
  | b2_filterJoint
  | b2_motorJoint
  | b2_mouseJoint
  | b2_prismaticJoint
  | b2_revoluteJoint
  | b2_weldJoint
  | b2_wheelJoint

subsection \<open>Math types\<close>

record 'a b2Vec2 =
  x :: 'a
  y :: 'a

record 'a b2Rot =
  c :: 'a
  s :: 'a

record 'a b2Transform =
  p :: "'a b2Vec2"
  q :: "'a b2Rot"

record 'a b2Mat22 =
  cx :: "'a b2Vec2"
  cy :: "'a b2Vec2"

record 'a b2Softness =
  biasRate :: 'a
  massScale :: 'a
  impulseScale :: 'a

text \<open>
  The vector helpers of math_functions.h, which is outside the verified sources. They are given
  the componentwise meaning of their names; the identity quoted in the header comment of
  weld_joint.c, \<open>w k % (rx i + ry j) = w * (-ry i + rx j)\<close>, is \<open>b2CrossSV\<close>.
\<close>

definition b2Vec2_zero :: "'a::zero b2Vec2" where
  "b2Vec2_zero = \<lparr> x = 0, y = 0 \<rparr>"

definition b2Add :: "'a::plus b2Vec2 \<Rightarrow> 'a b2Vec2 \<Rightarrow> 'a b2Vec2" where
  "b2Add a b = \<lparr> x = x a + x b, y = y a + y b \<rparr>"

definition b2Sub :: "'a::minus b2Vec2 \<Rightarrow> 'a b2Vec2 \<Rightarrow> 'a b2Vec2" where
  "b2Sub a b = \<lparr> x = x a - x b, y = y a - y b \<rparr>"

definition b2MulSV :: "'a::times \<Rightarrow> 'a b2Vec2 \<Rightarrow> 'a b2Vec2" where
  "b2MulSV k v = \<lparr> x = k * x v, y = k * y v \<rparr>"

definition b2MulAdd :: "'a::{plus,times} b2Vec2 \<Rightarrow> 'a \<Rightarrow> 'a b2Vec2 \<Rightarrow> 'a b2Vec2" where
  "b2MulAdd a k b = \<lparr> x = x a + k * x b, y = y a + k * y b \<rparr>"

definition b2MulSub :: "'a::{minus,times} b2Vec2 \<Rightarrow> 'a \<Rightarrow> 'a b2Vec2 \<Rightarrow> 'a b2Vec2" where
  "b2MulSub a k b = \<lparr> x = x a - k * x b, y = y a - k * y b \<rparr>"

definition b2Cross :: "'a::{minus,times} b2Vec2 \<Rightarrow> 'a b2Vec2 \<Rightarrow> 'a" where
  "b2Cross a b = x a * y b - y a * x b"

definition b2CrossSV :: "'a::{uminus,times} \<Rightarrow> 'a b2Vec2 \<Rightarrow> 'a b2Vec2" where
  "b2CrossSV k v = \<lparr> x = - k * y v, y = k * x v \<rparr>"

definition b2Length :: "real b2Vec2 \<Rightarrow> real" where
  "b2Length v = sqrt (x v * x v + y v * y v)"

subsection \<open>Simulation records\<close>

text \<open>
  The structs of body.h, joint.h, solver.h and solver_set.h are declared outside the
  verified sources; each record carries the fields that weld_joint.c reads or writes.
\<close>

record 'a b2BodyState =
  linearVelocity :: "'a b2Vec2"
  angularVelocity :: 'a
  deltaPosition :: "'a b2Vec2"
  deltaRotation :: "'a b2Rot"

record 'a b2BodySim =
  transform :: "'a b2Transform"
  center :: "'a b2Vec2"
  localCenter :: "'a b2Vec2"
  invMass :: 'a
  invInertia :: 'a

record b2Body =
  setIndex :: int
  localIndex :: int

record 'a b2SolverSet =
  bodySims :: "'a b2BodySim list"

record 'a b2WeldJoint =
  linearHertz :: 'a
  linearDampingRatio :: 'a
  angularHertz :: 'a
  angularDampingRatio :: 'a
  linearSpring :: "'a b2Softness"
  angularSpring :: "'a b2Softness"
  linearImpulse :: "'a b2Vec2"
  angularImpulse :: 'a
  indexA :: int
  indexB :: int
  frameA :: "'a b2Transform"
  frameB :: "'a b2Transform"
  deltaCenter :: "'a b2Vec2"
  axialMass :: 'a

record 'a b2JointSim =
  type :: b2JointType
  bodyIdA :: int
  bodyIdB :: int
  localFrameA :: "'a b2Transform"
  localFrameB :: "'a b2Transform"
  invMassA :: 'a
  invMassB :: 'a
  invIA :: 'a
  invIB :: 'a
  constraintSoftness :: "'a b2Softness"
  weldJoint :: "'a b2WeldJoint"

text \<open>The fields of \<open>b2World\<close> (physics_world.h) that weld_joint.c reaches.\<close>

record 'a b2World =
  bodies :: "b2Body list"
  solverSets :: "'a b2SolverSet list"
  inv_h :: 'a

record 'a b2StepContext =
  world :: "'a b2World"
  states :: "'a b2BodyState list"
  h :: 'a
  enableWarmStarting :: bool

section \<open>What weld_joint.c takes from other files\<close>

text \<open>
  weld_joint.c calls functions and uses constants of headers that are outside the
  verified sources (math_functions.h, solver.h, body.h, core.h). Those whose value no theorem
  needs are parameters of the embedding, collected in one record; every theorem holds for
  all values of them.
\<close>

record 'a b2Env =
  assertsEnabled :: bool
  b2IsValidFloat :: "'a \<Rightarrow> bool"
  b2MulRot :: "'a b2Rot \<Rightarrow> 'a b2Rot \<Rightarrow> 'a b2Rot"
  b2InvMulRot :: "'a b2Rot \<Rightarrow> 'a b2Rot \<Rightarrow> 'a b2Rot"
  b2RotateVector :: "'a b2Rot \<Rightarrow> 'a b2Vec2 \<Rightarrow> 'a b2Vec2"
  b2Rot_GetAngle :: "'a b2Rot \<Rightarrow> 'a"
  b2Solve22 :: "'a b2Mat22 \<Rightarrow> 'a b2Vec2 \<Rightarrow> 'a b2Vec2"
  b2MakeSoft :: "'a \<Rightarrow> 'a \<Rightarrow> 'a \<Rightarrow> 'a b2Softness"
  b2_identityBodyState :: "'a b2BodyState"

text \<open>
  How a call can end without a result: at a failed assertion, or by reaching outside an
  array (undefined behaviour in C).
\<close>

datatype b2Fault = AssertionFailure | OutOfBounds

text \<open>
  Modelled from the spec: the macro \<open>B2_ASSERT\<close> of core.h, which is outside the
  verified sources. The spec says "Assertions guard invariants in debug builds only": where
  assertions are enabled a false condition stops the call at the assertion, where they
  are compiled out the macro does nothing. \<open>B2_ASSERT E cond\<close> tells whether execution
  goes on past the assertion.
\<close>

definition B2_ASSERT :: "'a b2Env \<Rightarrow> bool \<Rightarrow> bool" where
  "B2_ASSERT E cond = (if assertsEnabled E then cond else True)"

text \<open>
  The index that marks "no entry" (core.h, outside the verified sources).
  b2PrepareWeldJoint stores it for a body outside the awake set.
\<close>

definition B2_NULL_INDEX :: int where
  "B2_NULL_INDEX = - 1"

text \<open>
  The typed array accessors (\<open>b2BodyArray_Get\<close>, \<open>b2SolverSetArray_Get\<close>,
  \<open>b2BodySimArray_Get\<close>) return the element at an index; an index outside the array is a
  fault.
\<close>

definition b2Array_Get :: "'b list \<Rightarrow> int \<Rightarrow> b2Fault + 'b" where
  "b2Array_Get a i = (if 0 \<le> i \<and> i < int (length a) then Inr (a ! nat i) else Inl OutOfBounds)"

subsection \<open>The body states a joint pass works on\<close>

text \<open>
  \<open>stateA\<close> and \<open>stateB\<close> are pointers, either to the function-local \<open>dummyState\<close> or
  into \<open>context->states\<close>, and they may be equal. The passes are modelled on a small
  store (the local dummy state and the context's array) that is read and written through
  such pointers, in the order of the source. An index that is neither \<open>B2_NULL_INDEX\<close> nor
  inside the array gives no valid pointer: the pass ends in a fault.
\<close>

datatype b2StatePtr = DummyState | ContextState nat

type_synonym 'a b2StateStore = "'a b2BodyState \<times> 'a b2BodyState list"

definition b2StatePointer :: "'a b2StepContext \<Rightarrow> int \<Rightarrow> b2Fault + b2StatePtr" where
  "b2StatePointer ctx i =
     (if i = B2_NULL_INDEX then Inr DummyState
      else if 0 \<le> i \<and> i < int (length (states ctx)) then Inr (ContextState (nat i))
      else Inl OutOfBounds)"

fun b2Read :: "'a b2StateStore \<Rightarrow> b2StatePtr \<Rightarrow> 'a b2BodyState" where
  "b2Read (d, ss) DummyState = d"
| "b2Read (d, ss) (ContextState i) = ss ! i"

fun b2Write :: "'a b2StateStore \<Rightarrow> b2StatePtr \<Rightarrow> ('a b2BodyState \<Rightarrow> 'a b2BodyState) \<Rightarrow> 'a b2StateStore" where
  "b2Write (d, ss) DummyState f = (f d, ss)"
| "b2Write (d, ss) (ContextState i) f = (d, ss[i := f (ss ! i)])"

section \<open>Weld joint parameters (weld_joint.c, lines 14-64)\<close>

text \<open>
  \<open>b2GetJointSimCheckType\<close> (joint.c, outside the verified sources) resolves the joint id to the
  joint's simulation record, which the setter then writes in place; the setters are
  modelled on that record.
\<close>

definition b2WeldJoint_SetLinearHertz :: "'a::{zero,ord} b2Env \<Rightarrow> 'a b2JointSim \<Rightarrow> 'a \<Rightarrow> b2Fault + 'a b2JointSim" where
  "b2WeldJoint_SetLinearHertz E joint hertz =
     (if \<not> B2_ASSERT E (b2IsValidFloat E hertz \<and> hertz \<ge> 0) then Inl AssertionFailure
      else Inr (joint\<lparr> weldJoint := (weldJoint joint)\<lparr> linearHertz := hertz \<rparr> \<rparr>))"

definition b2WeldJoint_GetLinearHertz :: "'a b2JointSim \<Rightarrow> 'a" where
  "b2WeldJoint_GetLinearHertz joint = linearHertz (weldJoint joint)"

definition b2WeldJoint_SetLinearDampingRatio :: "'a::{zero,ord} b2Env \<Rightarrow> 'a b2JointSim \<Rightarrow> 'a \<Rightarrow> b2Fault + 'a b2JointSim" where
  "b2WeldJoint_SetLinearDampingRatio E joint dampingRatio =
     (if \<not> B2_ASSERT E (b2IsValidFloat E dampingRatio \<and> dampingRatio \<ge> 0) then Inl AssertionFailure
      else Inr (joint\<lparr> weldJoint := (weldJoint joint)\<lparr> linearDampingRatio := dampingRatio \<rparr> \<rparr>))"

definition b2WeldJoint_GetLinearDampingRatio :: "'a b2JointSim \<Rightarrow> 'a" where
  "b2WeldJoint_GetLinearDampingRatio joint = linearDampingRatio (weldJoint joint)"

definition b2WeldJoint_SetAngularHertz :: "'a::{zero,ord} b2Env \<Rightarrow> 'a b2JointSim \<Rightarrow> 'a \<Rightarrow> b2Fault + 'a b2JointSim" where
  "b2WeldJoint_SetAngularHertz E joint hertz =
     (if \<not> B2_ASSERT E (b2IsValidFloat E hertz \<and> hertz \<ge> 0) then Inl AssertionFailure
      else Inr (joint\<lparr> weldJoint := (weldJoint joint)\<lparr> angularHertz := hertz \<rparr> \<rparr>))"

definition b2WeldJoint_GetAngularHertz :: "'a b2JointSim \<Rightarrow> 'a" where
  "b2WeldJoint_GetAngularHertz joint = angularHertz (weldJoint joint)"

definition b2WeldJoint_SetAngularDampingRatio :: "'a::{zero,ord} b2Env \<Rightarrow> 'a b2JointSim \<Rightarrow> 'a \<Rightarrow> b2Fault + 'a b2JointSim" where
  "b2WeldJoint_SetAngularDampingRatio E joint dampingRatio =
     (if \<not> B2_ASSERT E (b2IsValidFloat E dampingRatio \<and> dampingRatio \<ge> 0) then Inl AssertionFailure
      else Inr (joint\<lparr> weldJoint := (weldJoint joint)\<lparr> angularDampingRatio := dampingRatio \<rparr> \<rparr>))"

definition b2WeldJoint_GetAngularDampingRatio :: "'a b2JointSim \<Rightarrow> 'a" where
  "b2WeldJoint_GetAngularDampingRatio joint = angularDampingRatio (weldJoint joint)"

section \<open>Preparing a weld joint (weld_joint.c, lines 91-163)\<close>

text \<open>
  The part of \<open>b2PrepareWeldJoint\<close> after the lookups: from the two bodies and their
  simulation data to the prepared joint.
\<close>

definition b2PrepareWeldJoint_sims ::
  "'a::{zero,one,plus,minus,inverse,ord} b2Env \<Rightarrow> 'a b2JointSim \<Rightarrow> 'a b2StepContext \<Rightarrow>
   b2Body \<Rightarrow> b2Body \<Rightarrow> 'a b2BodySim \<Rightarrow> 'a b2BodySim \<Rightarrow> 'a b2JointSim" where
  "b2PrepareWeldJoint_sims E base ctx bodyA bodyB bodySimA bodySimB =
     (let localIndexA = localIndex bodyA;
          localIndexB = localIndex bodyB;
          mA = invMass bodySimA;
          iA = invInertia bodySimA;
          mB = invMass bodySimB;
          iB = invInertia bodySimB;
          joint0 = weldJoint base;
          joint1 = joint0\<lparr>
            indexA := (if setIndex bodyA = b2_awakeSet then localIndexA else B2_NULL_INDEX),
            indexB := (if setIndex bodyB = b2_awakeSet then localIndexB else B2_NULL_INDEX),
            frameA := \<lparr>
              p = b2RotateVector E (q (transform bodySimA)) (b2Sub (p (localFrameA base)) (localCenter bodySimA)),
              q = b2MulRot E (q (transform bodySimA)) (q (localFrameA base)) \<rparr>,
            frameB := \<lparr>
              p = b2RotateVector E (q (transform bodySimB)) (b2Sub (p (localFrameB base)) (localCenter bodySimB)),
              q = b2MulRot E (q (transform bodySimB)) (q (localFrameB base)) \<rparr>,
            deltaCenter := b2Sub (center bodySimB) (center bodySimA) \<rparr>;
          ka = iA + iB;
          joint2 = joint1\<lparr> axialMass := (if ka > 0 then 1 / ka else 0) \<rparr>;
          joint3 = joint2\<lparr> linearSpring :=
            (if linearHertz joint2 = 0 then constraintSoftness base
             else b2MakeSoft E (linearHertz joint2) (linearDampingRatio joint2) (h ctx)) \<rparr>;
          joint4 = joint3\<lparr> angularSpring :=
            (if angularHertz joint3 = 0 then constraintSoftness base
             else b2MakeSoft E (angularHertz joint3) (angularDampingRatio joint3) (h ctx)) \<rparr>;
          joint5 = (if enableWarmStarting ctx = False
                    then joint4\<lparr> linearImpulse := b2Vec2_zero, angularImpulse := 0 \<rparr>
                    else joint4)
      in base\<lparr> invMassA := mA, invMassB := mB, invIA := iA, invIB := iB, weldJoint := joint5 \<rparr>)"

definition b2PrepareWeldJoint ::
  "'a::{zero,one,plus,minus,inverse,ord} b2Env \<Rightarrow> 'a b2JointSim \<Rightarrow> 'a b2StepContext \<Rightarrow>
   b2Fault + 'a b2JointSim" where
  "b2PrepareWeldJoint E base ctx =
     (if \<not> B2_ASSERT E (type base = b2_weldJoint) then Inl AssertionFailure
      else
        let idA = bodyIdA base;
            idB = bodyIdB base;
            w = world ctx
        in case b2Array_Get (bodies w) idA of
             Inl e \<Rightarrow> Inl e
           | Inr bodyA \<Rightarrow>
        (case b2Array_Get (bodies w) idB of
             Inl e \<Rightarrow> Inl e
           | Inr bodyB \<Rightarrow>
        (if \<not> B2_ASSERT E (setIndex bodyA = b2_awakeSet \<or> setIndex bodyB = b2_awakeSet)
         then Inl AssertionFailure
         else
        (case b2Array_Get (solverSets w) (setIndex bodyA) of
             Inl e \<Rightarrow> Inl e
           | Inr setA \<Rightarrow>
        (case b2Array_Get (solverSets w) (setIndex bodyB) of
             Inl e \<Rightarrow> Inl e
           | Inr setB \<Rightarrow>
        (case b2Array_Get (bodySims setA) (localIndex bodyA) of
             Inl e \<Rightarrow> Inl e
           | Inr bodySimA \<Rightarrow>
        (case b2Array_Get (bodySims setB) (localIndex bodyB) of
             Inl e \<Rightarrow> Inl e
           | Inr bodySimB \<Rightarrow>
               Inr (b2PrepareWeldJoint_sims E base ctx bodyA bodyB bodySimA bodySimB))))))))"

section \<open>Warm starting (weld_joint.c, lines 165-188)\<close>

definition b2WarmStartWeldJoint ::
  "'a::{plus,minus,times} b2Env \<Rightarrow> 'a b2JointSim \<Rightarrow> 'a b2StepContext \<Rightarrow>
   b2Fault + 'a b2StepContext" where
  "b2WarmStartWeldJoint E base ctx =
     (let mA = invMassA base;
          mB = invMassB base;
          iA = invIA base;
          iB = invIB base;
          dummyState = b2_identityBodyState E;
          joint = weldJoint base
      in case b2StatePointer ctx (indexA joint) of
           Inl e \<Rightarrow> Inl e
         | Inr stateA \<Rightarrow>
      (case b2StatePointer ctx (indexB joint) of
           Inl e \<Rightarrow> Inl e
         | Inr stateB \<Rightarrow>
      (let m0 = (dummyState, states ctx);
           rA = b2RotateVector E (deltaRotation (b2Read m0 stateA)) (p (frameA joint));
           rB = b2RotateVector E (deltaRotation (b2Read m0 stateB)) (p (frameB joint));
           m1 = b2Write m0 stateA (\<lambda>st. st\<lparr> linearVelocity :=
                  b2MulSub (linearVelocity st) mA (linearImpulse joint) \<rparr>);
           m2 = b2Write m1 stateA (\<lambda>st. st\<lparr> angularVelocity :=
                  angularVelocity st - iA * (b2Cross rA (linearImpulse joint) + angularImpulse joint) \<rparr>);
           m3 = b2Write m2 stateB (\<lambda>st. st\<lparr> linearVelocity :=
                  b2MulAdd (linearVelocity st) mB (linearImpulse joint) \<rparr>);
           m4 = b2Write m3 stateB (\<lambda>st. st\<lparr> angularVelocity :=
                  angularVelocity st + iB * (b2Cross rB (linearImpulse joint) + angularImpulse joint) \<rparr>)
       in Inr (ctx\<lparr> states := snd m4 \<rparr>))))"

section \<open>Solving (weld_joint.c, lines 190-283)\<close>

text \<open>
  The two blocks of \<open>b2SolveWeldJoint\<close>. Each takes the values the block reads and
  returns the joint with its accumulated impulse updated, the impulse of this pass and the
  updated local velocities.
\<close>

definition b2SolveWeldJoint_angular ::
  "'a::{zero,one,plus,minus,uminus,times,ord} b2Env \<Rightarrow> 'a b2WeldJoint \<Rightarrow> 'a \<Rightarrow> 'a \<Rightarrow> bool \<Rightarrow>
   'a b2Rot \<Rightarrow> 'a b2Rot \<Rightarrow> 'a \<Rightarrow> 'a \<Rightarrow> 'a b2WeldJoint \<times> 'a \<times> 'a" where
  "b2SolveWeldJoint_angular E joint iA iB useBias deltaRotationA deltaRotationB wA wB =
     (let qA = b2MulRot E deltaRotationA (q (frameA joint));
          qB = b2MulRot E deltaRotationB (q (frameB joint));
          relQ = b2InvMulRot E qA qB;
          jointAngle = b2Rot_GetAngle E relQ;
          soft = (useBias \<or> angularHertz joint > 0);
          bias = (if soft then biasRate (angularSpring joint) * jointAngle else 0);
          mScale = (if soft then massScale (angularSpring joint) else 1);
          iScale = (if soft then impulseScale (angularSpring joint) else 0);
          Cdot = wB - wA;
          impulse = - mScale * axialMass joint * (Cdot + bias) - iScale * angularImpulse joint
      in (joint\<lparr> angularImpulse := angularImpulse joint + impulse \<rparr>,
          wA - iA * impulse,
          wB + iB * impulse))"

definition b2SolveWeldJoint_linear ::
  "'a::{zero,one,plus,minus,uminus,times,ord} b2Env \<Rightarrow> 'a b2WeldJoint \<Rightarrow> 'a \<Rightarrow> 'a \<Rightarrow> 'a \<Rightarrow> 'a \<Rightarrow>
   bool \<Rightarrow> 'a b2BodyState \<Rightarrow> 'a b2BodyState \<Rightarrow> 'a b2Vec2 \<Rightarrow> 'a \<Rightarrow> 'a b2Vec2 \<Rightarrow> 'a \<Rightarrow>
   'a b2WeldJoint \<times> 'a b2Vec2 \<times> 'a \<times> 'a b2Vec2 \<times> 'a" where
  "b2SolveWeldJoint_linear E joint mA mB iA iB useBias stA stB vA wA vB wB =
     (let rA = b2RotateVector E (deltaRotation stA) (p (frameA joint));
          rB = b2RotateVector E (deltaRotation stB) (p (frameB joint));
          soft = (useBias \<or> linearHertz joint > 0);
          dcA = deltaPosition stA;
          dcB = deltaPosition stB;
          C = b2Add (b2Add (b2Sub dcB dcA) (b2Sub rB rA)) (deltaCenter joint);
          bias = (if soft then b2MulSV (biasRate (linearSpring joint)) C else b2Vec2_zero);
          mScale = (if soft then massScale (linearSpring joint) else 1);
          iScale = (if soft then impulseScale (linearSpring joint) else 0);
          Cdot = b2Sub (b2Add vB (b2CrossSV wB rB)) (b2Add vA (b2CrossSV wA rA));
          Kcyx = - y rA * x rA * iA - y rB * x rB * iB;
          K = \<lparr> cx = \<lparr> x = mA + mB + y rA * y rA * iA + y rB * y rB * iB, y = Kcyx \<rparr>,
                cy = \<lparr> x = Kcyx, y = mA + mB + x rA * x rA * iA + x rB * x rB * iB \<rparr> \<rparr>;
          b = b2Solve22 E K (b2Add Cdot bias);
          impulse = \<lparr> x = - mScale * x b - iScale * x (linearImpulse joint),
                      y = - mScale * y b - iScale * y (linearImpulse joint) \<rparr>
      in (joint\<lparr> linearImpulse := b2Add (linearImpulse joint) impulse \<rparr>,
          b2MulSub vA mA impulse,
          wA - iA * b2Cross rA impulse,
          b2MulAdd vB mB impulse,
          wB + iB * b2Cross rB impulse))"

definition b2SolveWeldJoint ::
  "'a::{zero,one,plus,minus,uminus,times,ord} b2Env \<Rightarrow> 'a b2JointSim \<Rightarrow> 'a b2StepContext \<Rightarrow> bool \<Rightarrow>
   b2Fault + ('a b2JointSim \<times> 'a b2StepContext)" where
  "b2SolveWeldJoint E base ctx useBias =
     (if \<not> B2_ASSERT E (type base = b2_weldJoint) then Inl AssertionFailure
      else
        let mA = invMassA base;
            mB = invMassB base;
            iA = invIA base;
            iB = invIB base;
            dummyState = b2_identityBodyState E;
            joint = weldJoint base
        in case b2StatePointer ctx (indexA joint) of
             Inl e \<Rightarrow> Inl e
           | Inr stateA \<Rightarrow>
        (case b2StatePointer ctx (indexB joint) of
             Inl e \<Rightarrow> Inl e
           | Inr stateB \<Rightarrow>
        (let m0 = (dummyState, states ctx);
             vA = linearVelocity (b2Read m0 stateA);
             wA = angularVelocity (b2Read m0 stateA);
             vB = linearVelocity (b2Read m0 stateB);
             wB = angularVelocity (b2Read m0 stateB)
         in case b2SolveWeldJoint_angular E joint iA iB useBias
                   (deltaRotation (b2Read m0 stateA)) (deltaRotation (b2Read m0 stateB)) wA wB of
              (joint1, wA1, wB1) \<Rightarrow>
         (case b2SolveWeldJoint_linear E joint1 mA mB iA iB useBias
                   (b2Read m0 stateA) (b2Read m0 stateB) vA wA1 vB wB1 of
              (joint2, vA2, wA2, vB2, wB2) \<Rightarrow>
         (let m1 = b2Write m0 stateA (\<lambda>st. st\<lparr> linearVelocity := vA2 \<rparr>);
              m2 = b2Write m1 stateA (\<lambda>st. st\<lparr> angularVelocity := wA2 \<rparr>);
              m3 = b2Write m2 stateB (\<lambda>st. st\<lparr> linearVelocity := vB2 \<rparr>);
              m4 = b2Write m3 stateB (\<lambda>st. st\<lparr> angularVelocity := wB2 \<rparr>)
          in Inr (base\<lparr> weldJoint := joint2 \<rparr>, ctx\<lparr> states := snd m4 \<rparr>))))))"

section \<open>Reported force and torque\<close>

definition b2GetWeldJointForce :: "'a::times b2World \<Rightarrow> 'a b2JointSim \<Rightarrow> 'a b2Vec2" where
  "b2GetWeldJointForce w base = b2MulSV (inv_h w) (linearImpulse (weldJoint base))"

definition b2GetWeldJointTorque :: "'a::times b2World \<Rightarrow> 'a b2JointSim \<Rightarrow> 'a" where
  "b2GetWeldJointTorque w base = inv_h w * angularImpulse (weldJoint base)"

text \<open>
  Modelled from the spec: the test that fires a joint event, which is part of the solver
  and outside the verified sources. The spec says: "Joint events fire when
  \<open>|linearImpulse|\<cdot>invH > forceThreshold\<close> or \<open>|angularImpulse|\<cdot>invH > torqueThreshold\<close>."
\<close>

definition b2JointEventTest :: "real \<Rightarrow> real b2JointSim \<Rightarrow> real \<Rightarrow> real \<Rightarrow> bool" where
  "b2JointEventTest invH base forceThreshold torqueThreshold =
     (b2Length (linearImpulse (weldJoint base)) * invH > forceThreshold
      \<or> \<bar>angularImpulse (weldJoint base)\<bar> * invH > torqueThreshold)"

section \<open>Linear momentum of the two bodies\<close>

text \<open>The numbers that the components of a vector stand for.\<close>

definition b2Vec2_map :: "('a \<Rightarrow> 'b) \<Rightarrow> 'a b2Vec2 \<Rightarrow> 'b b2Vec2" where
  "b2Vec2_map val v = \<lparr> x = val (x v), y = val (y v) \<rparr>"

text \<open>
  The total linear momentum of the joint's two bodies, mass times velocity, where the mass
  of a body is the reciprocal of the inverse mass that the joint caches. It is a quantity
  of exact arithmetic: \<open>val\<close> gives the number that a scalar of the code stands for.
\<close>

definition b2PairMomentum ::
  "('a \<Rightarrow> 'b::field) \<Rightarrow> 'a b2JointSim \<Rightarrow> 'a b2BodyState \<Rightarrow> 'a b2BodyState \<Rightarrow> 'b b2Vec2" where
  "b2PairMomentum val base stA stB =
     b2Add (b2MulSV (1 / val (invMassA base)) (b2Vec2_map val (linearVelocity stA)))
           (b2MulSV (1 / val (invMassB base)) (b2Vec2_map val (linearVelocity stB)))"

text \<open>
  The two velocity updates of a pass, \<open>b2MulSub vA mA P\<close> and \<open>b2MulAdd vB mB P\<close>, are
  computed without rounding error: what they return stands for the exact difference and
  the exact sum.
\<close>

definition b2ExactExchange ::
  "('a::{plus,minus,times} \<Rightarrow> 'b::{plus,minus,times}) \<Rightarrow>
   'a b2Vec2 \<Rightarrow> 'a \<Rightarrow> 'a b2Vec2 \<Rightarrow> 'a \<Rightarrow> 'a b2Vec2 \<Rightarrow> bool" where
  "b2ExactExchange val vA mA vB mB P =
     (b2Vec2_map val (b2MulSub vA mA P) = b2MulSub (b2Vec2_map val vA) (val mA) (b2Vec2_map val P)
      \<and> b2Vec2_map val (b2MulAdd vB mB P) = b2MulAdd (b2Vec2_map val vB) (val mB) (b2Vec2_map val P))"

section \<open>A concrete scene\<close>

text \<open>
  A small world on which the model is evaluated: a static ground body and two awake
  bodies, a weld joint between the two awake bodies and one between the ground and an
  awake body. The environment gives the rotation helpers their usual algebraic meaning;
  the angle of a rotation is stood for by its sine.
\<close>

definition scene_env :: "real b2Env" where
  "scene_env = \<lparr>
     assertsEnabled = True,
     b2IsValidFloat = (\<lambda>v. True),
     b2MulRot = (\<lambda>a b. \<lparr> c = c a * c b - s a * s b, s = s a * c b + c a * s b \<rparr>),
     b2InvMulRot = (\<lambda>a b. \<lparr> c = c a * c b + s a * s b, s = c a * s b - s a * c b \<rparr>),
     b2RotateVector = (\<lambda>r v. \<lparr> x = c r * x v - s r * y v, y = s r * x v + c r * y v \<rparr>),
     b2Rot_GetAngle = (\<lambda>r. s r),
     b2Solve22 = (\<lambda>A b. let det = x (cx A) * y (cy A) - x (cy A) * y (cx A);
                            d = (if det \<noteq> 0 then 1 / det else det)
                        in \<lparr> x = d * (y (cy A) * x b - x (cy A) * y b),
                             y = d * (x (cx A) * y b - y (cx A) * x b) \<rparr>),
     b2MakeSoft = (\<lambda>hertz zeta step. \<lparr> biasRate = 0, massScale = 1, impulseScale = 0 \<rparr>),
     b2_identityBodyState = \<lparr> linearVelocity = b2Vec2_zero, angularVelocity = 0,
       deltaPosition = b2Vec2_zero, deltaRotation = \<lparr> c = 1, s = 0 \<rparr> \<rparr> \<rparr>"

definition scene_sim :: "real \<Rightarrow> real \<Rightarrow> real \<Rightarrow> real b2BodySim" where
  "scene_sim px invM invI = \<lparr>
     transform = \<lparr> p = \<lparr> x = px, y = 0 \<rparr>, q = \<lparr> c = 1, s = 0 \<rparr> \<rparr>,
     center = \<lparr> x = px, y = 0 \<rparr>,
     localCenter = b2Vec2_zero,
     invMass = invM,
     invInertia = invI \<rparr>"

definition scene_world :: "real b2World" where
  "scene_world = \<lparr>
     bodies = [\<lparr> setIndex = b2_staticSet, localIndex = 0 \<rparr>,
               \<lparr> setIndex = b2_awakeSet, localIndex = 0 \<rparr>,
               \<lparr> setIndex = b2_awakeSet, localIndex = 1 \<rparr>],
     solverSets = [\<lparr> bodySims = [scene_sim 0 0 0] \<rparr>,
                   \<lparr> bodySims = [] \<rparr>,
                   \<lparr> bodySims = [scene_sim 1 2 1, scene_sim 2 4 3] \<rparr>],
     inv_h = 240 \<rparr>"

definition scene_state :: "real \<Rightarrow> real \<Rightarrow> real \<Rightarrow> real b2BodyState" where
  "scene_state vx vy w = \<lparr>
     linearVelocity = \<lparr> x = vx, y = vy \<rparr>,
     angularVelocity = w,
     deltaPosition = b2Vec2_zero,
     deltaRotation = \<lparr> c = 1, s = 0 \<rparr> \<rparr>"

definition scene_ctx :: "bool \<Rightarrow> real b2StepContext" where
  "scene_ctx warm = \<lparr>
     world = scene_world,
     states = [scene_state 1 2 3, scene_state 4 5 6],
     h = 1 / 240,
     enableWarmStarting = warm \<rparr>"

definition scene_joint :: "int \<Rightarrow> int \<Rightarrow> real b2JointSim" where
  "scene_joint idA idB = \<lparr>
     type = b2_weldJoint,
     bodyIdA = idA,
     bodyIdB = idB,
     localFrameA = \<lparr> p = \<lparr> x = 1, y = 0 \<rparr>, q = \<lparr> c = 1, s = 0 \<rparr> \<rparr>,
     localFrameB = \<lparr> p = \<lparr> x = 0, y = 1 \<rparr>, q = \<lparr> c = 1, s = 0 \<rparr> \<rparr>,
     invMassA = 0,
     invMassB = 0,
     invIA = 0,
     invIB = 0,
     constraintSoftness = \<lparr> biasRate = 1, massScale = 1, impulseScale = 0 \<rparr>,
     weldJoint = \<lparr>
       linearHertz = 0,
       linearDampingRatio = 0,
       angularHertz = 0,
       angularDampingRatio = 0,
       linearSpring = \<lparr> biasRate = 0, massScale = 0, impulseScale = 0 \<rparr>,
       angularSpring = \<lparr> biasRate = 0, massScale = 0, impulseScale = 0 \<rparr>,
       linearImpulse = \<lparr> x = 2, y = - 1 \<rparr>,
       angularImpulse = 5,
       indexA = 0,
       indexB = 0,
       frameA = \<lparr> p = b2Vec2_zero, q = \<lparr> c = 1, s = 0 \<rparr> \<rparr>,
       frameB = \<lparr> p = b2Vec2_zero, q = \<lparr> c = 1, s = 0 \<rparr> \<rparr>,
       deltaCenter = b2Vec2_zero,
       axialMass = 0 \<rparr> \<rparr>"

section \<open>The arithmetic of C float\<close>

text \<open>
  The engine computes on C \<open>float\<close>, IEEE 754 binary32 with rounding to nearest, ties to
  even. A value is a finite number with a significand of 24 bits and an exponent from
  \<open>-126\<close> to \<open>127\<close> (subnormal numbers are the multiples of \<open>2 powr -149\<close> below
  \<open>2 powr -126\<close>), an infinity, or NaN. The two zeros of binary32 are one value here: they
  differ only in what a division by zero returns, and the type has the operations the
  warm start and the solve use, \<open>+\<close>, \<open>-\<close>, \<open>*\<close> and \<open><\<close>, no division.
\<close>

datatype float32 = Finite rat | PlusInfinity | MinusInfinity | NaN

definition float32_pow2 :: "int \<Rightarrow> rat" where
  "float32_pow2 e = (if 0 \<le> e then 2 ^ nat e else 1 / 2 ^ nat (- e))"

text \<open>The number of binary digits of a positive integer.\<close>

function float32_bits :: "int \<Rightarrow> nat" where
  "float32_bits n = (if n \<le> 0 then 0 else Suc (float32_bits (n div 2)))"
  by pat_completeness auto
termination
  by (relation "measure nat") auto

declare float32_bits.simps [simp del]

text \<open>The exponent \<open>e\<close> of a non-zero number \<open>r\<close>: \<open>2 ^ e \<le> |r| < 2 ^ (e + 1)\<close>.\<close>

definition float32_exponent :: "rat \<Rightarrow> int" where
  "float32_exponent r =
     (case quotient_of \<bar>r\<bar> of (n, d) \<Rightarrow>
        let e = int (float32_bits n) - int (float32_bits d)
        in if \<bar>r\<bar> < float32_pow2 e then e - 1 else e)"

text \<open>Rounding to the nearest integer, ties to the even one.\<close>

definition float32_nearest_even :: "rat \<Rightarrow> int" where
  "float32_nearest_even r =
     (let f = \<lfloor>r\<rfloor>; d = r - of_int f
      in if d < 1 / 2 then f
         else if 1 / 2 < d then f + 1
         else if even f then f else f + 1)"

text \<open>
  Rounding an exact result to binary32: to a multiple of the unit in the last place of its
  binade; a result that rounds to \<open>2 ^ 128\<close> or beyond overflows to an infinity.
\<close>

definition float32_round :: "rat \<Rightarrow> float32" where
  "float32_round r =
     (if r = 0 then Finite 0
      else
        let e = max (float32_exponent r) (- 126);
            ulp = float32_pow2 (e - 23);
            v = of_int (float32_nearest_even (r / ulp)) * ulp
        in if float32_pow2 128 \<le> \<bar>v\<bar>
           then (if 0 < r then PlusInfinity else MinusInfinity)
           else Finite v)"

fun float32_neg :: "float32 \<Rightarrow> float32" where
  "float32_neg (Finite a) = Finite (- a)"
| "float32_neg PlusInfinity = MinusInfinity"
| "float32_neg MinusInfinity = PlusInfinity"
| "float32_neg NaN = NaN"

fun float32_add :: "float32 \<Rightarrow> float32 \<Rightarrow> float32" where
  "float32_add (Finite a) (Finite b) = float32_round (a + b)"
| "float32_add NaN b = NaN"
| "float32_add a NaN = NaN"
| "float32_add PlusInfinity MinusInfinity = NaN"
| "float32_add MinusInfinity PlusInfinity = NaN"
| "float32_add PlusInfinity b = PlusInfinity"
| "float32_add MinusInfinity b = MinusInfinity"
| "float32_add (Finite a) b = b"

fun float32_sign :: "float32 \<Rightarrow> int" where
  "float32_sign (Finite a) = (if 0 < a then 1 else if a < 0 then - 1 else 0)"
| "float32_sign PlusInfinity = 1"
| "float32_sign MinusInfinity = - 1"
| "float32_sign NaN = 0"

fun float32_mul :: "float32 \<Rightarrow> float32 \<Rightarrow> float32" where
  "float32_mul (Finite a) (Finite b) = float32_round (a * b)"
| "float32_mul NaN b = NaN"
| "float32_mul a NaN = NaN"
| "float32_mul a b =
     (if float32_sign a * float32_sign b = 0 then NaN
      else if 0 < float32_sign a * float32_sign b then PlusInfinity
      else MinusInfinity)"

fun float32_less :: "float32 \<Rightarrow> float32 \<Rightarrow> bool" where
  "float32_less (Finite a) (Finite b) = (a < b)"
| "float32_less NaN b = False"
| "float32_less a NaN = False"
| "float32_less a MinusInfinity = False"
| "float32_less MinusInfinity b = True"
| "float32_less PlusInfinity b = False"
| "float32_less (Finite a) PlusInfinity = True"

instantiation float32 :: "{zero,one,plus,minus,uminus,times,ord}"
begin

definition zero_float32_def: "(0::float32) = Finite 0"

definition one_float32_def: "(1::float32) = Finite 1"

definition plus_float32_def: "(a::float32) + b = float32_add a b"

definition minus_float32_def: "(a::float32) - b = float32_add a (float32_neg b)"

definition uminus_float32_def: "- (a::float32) = float32_neg a"

definition times_float32_def: "(a::float32) * b = float32_mul a b"

definition less_float32_def: "(a::float32) < b = float32_less a b"

definition less_eq_float32_def: "(a::float32) \<le> b = (float32_less a b \<or> (a = b \<and> a \<noteq> NaN))"

instance ..

end

text \<open>The number a finite value stands for.\<close>

fun float32_value :: "float32 \<Rightarrow> rat" where
  "float32_value (Finite a) = a"
| "float32_value PlusInfinity = 0"
| "float32_value MinusInfinity = 0"
| "float32_value NaN = 0"

section \<open>A scene in float arithmetic\<close>

text \<open>
  Two awake bodies with inverse masses 2 and 4 and linear velocities \<open>(1, 0)\<close> and
  \<open>(4, 0)\<close>, joined by a weld joint that stores the linear impulse \<open>(P, 0)\<close>; the joint
  is as \<open>b2PrepareWeldJoint\<close> leaves it, with the inverse masses and indices cached. The
  environment computes the rotation helpers in float arithmetic. \<open>b2Solve22\<close> and
  \<open>b2MakeSoft\<close> divide, which the float type does not offer: they are given stand-ins, and
  the warm start calls neither.
\<close>

definition float_env :: "float32 b2Env" where
  "float_env = \<lparr>
     assertsEnabled = True,
     b2IsValidFloat = (\<lambda>v. case v of Finite a \<Rightarrow> True | _ \<Rightarrow> False),
     b2MulRot = (\<lambda>a b. \<lparr> c = c a * c b - s a * s b, s = s a * c b + c a * s b \<rparr>),
     b2InvMulRot = (\<lambda>a b. \<lparr> c = c a * c b + s a * s b, s = c a * s b - s a * c b \<rparr>),
     b2RotateVector = (\<lambda>r v. \<lparr> x = c r * x v - s r * y v, y = s r * x v + c r * y v \<rparr>),
     b2Rot_GetAngle = (\<lambda>r. s r),
     b2Solve22 = (\<lambda>A b. b),
     b2MakeSoft = (\<lambda>hertz zeta step. \<lparr> biasRate = 0, massScale = 1, impulseScale = 0 \<rparr>),
     b2_identityBodyState = \<lparr> linearVelocity = b2Vec2_zero, angularVelocity = 0,
       deltaPosition = b2Vec2_zero, deltaRotation = \<lparr> c = 1, s = 0 \<rparr> \<rparr> \<rparr>"

definition float_state :: "float32 \<Rightarrow> float32 b2BodyState" where
  "float_state vx = \<lparr>
     linearVelocity = \<lparr> x = vx, y = 0 \<rparr>,
     angularVelocity = 0,
     deltaPosition = b2Vec2_zero,
     deltaRotation = \<lparr> c = 1, s = 0 \<rparr> \<rparr>"

definition float_sim :: "float32 \<Rightarrow> float32 b2BodySim" where
  "float_sim invM = \<lparr>
     transform = \<lparr> p = b2Vec2_zero, q = \<lparr> c = 1, s = 0 \<rparr> \<rparr>,
     center = b2Vec2_zero,
     localCenter = b2Vec2_zero,
     invMass = invM,
     invInertia = 1 \<rparr>"

definition float_ctx :: "float32 b2StepContext" where
  "float_ctx = \<lparr>
     world = \<lparr>
       bodies = [\<lparr> setIndex = b2_awakeSet, localIndex = 0 \<rparr>,
                 \<lparr> setIndex = b2_awakeSet, localIndex = 1 \<rparr>],
       solverSets = [\<lparr> bodySims = [] \<rparr>,
                     \<lparr> bodySims = [] \<rparr>,
                     \<lparr> bodySims = [float_sim (Finite 2), float_sim (Finite 4)] \<rparr>],
       inv_h = Finite 240 \<rparr>,
     states = [float_state (Finite 1), float_state (Finite 4)],
     h = float32_round (1 / 240),
     enableWarmStarting = True \<rparr>"

definition float_joint :: "float32 \<Rightarrow> float32 b2JointSim" where
  "float_joint P = \<lparr>
     type = b2_weldJoint,
     bodyIdA = 0,
     bodyIdB = 1,
     localFrameA = \<lparr> p = b2Vec2_zero, q = \<lparr> c = 1, s = 0 \<rparr> \<rparr>,
     localFrameB = \<lparr> p = b2Vec2_zero, q = \<lparr> c = 1, s = 0 \<rparr> \<rparr>,
     invMassA = Finite 2,
     invMassB = Finite 4,
     invIA = 1,
     invIB = 1,
     constraintSoftness = \<lparr> biasRate = 0, massScale = 1, impulseScale = 0 \<rparr>,
     weldJoint = \<lparr>
       linearHertz = 0,
       linearDampingRatio = 0,
       angularHertz = 0,
       angularDampingRatio = 0,
       linearSpring = \<lparr> biasRate = 0, massScale = 1, impulseScale = 0 \<rparr>,
       angularSpring = \<lparr> biasRate = 0, massScale = 1, impulseScale = 0 \<rparr>,
       linearImpulse = \<lparr> x = P, y = 0 \<rparr>,
       angularImpulse = 0,
       indexA = 0,
       indexB = 1,
       frameA = \<lparr> p = b2Vec2_zero, q = \<lparr> c = 1, s = 0 \<rparr> \<rparr>,
       frameB = \<lparr> p = b2Vec2_zero, q = \<lparr> c = 1, s = 0 \<rparr> \<rparr>,
       deltaCenter = b2Vec2_zero,
       axialMass = 1 \<rparr> \<rparr>"

section \<open>Constraint graph colouring\<close>

text \<open>
  Modelled from the spec: the constraint graph. Its code (constraint_graph.h and
  constraint_graph.c) is outside the verified sources; physics_world.h only holds the
  field \<open>constraintGraph\<close>, and types.h the 24 entries of \<open>b2Counters.colorCounts\<close>. The
  spec says: "The awake set's contacts and joints are distributed into a bounded number
  of colors (default \<open>\<le>\<close> 24). [...] Assignment is greedy: when a constraint becomes active, scan its two bodies'
  per-body color-bitmasks and pick the lowest color index where neither body is yet
  represented; if no color has space, place the constraint in an overflow color solved
  single-threaded."

  A constraint is the pair of its two body ids. The predicate \<open>dynamic\<close> tells which
  bodies carry a colour bitmask; with \<open>dynamic = (\<lambda>_. True)\<close> this is the spec's sentence
  word by word.
\<close>

text \<open>
  Modelled from the spec: the bound on the number of colours ("default \<open>\<le>\<close> 24"), taken as
  24, the number of entries of \<open>b2Counters.colorCounts\<close> in types.h.
\<close>

definition B2_GRAPH_COLOR_COUNT :: nat where
  "B2_GRAPH_COLOR_COUNT = 24"

text \<open>
  Modelled from the spec: the data of the graph, which are the constraints of each colour,
  those of the overflow colour, and the colour bitmask of each body.
\<close>

type_synonym b2Constraint = "nat \<times> nat"

record b2ConstraintGraph =
  colors :: "b2Constraint list list"
  overflow :: "b2Constraint list"
  bodyColors :: "nat \<Rightarrow> nat set"

text \<open>
  Modelled from the spec: the graph before any constraint is active, with its bounded
  number of colours, all empty.
\<close>

definition b2EmptyGraph :: b2ConstraintGraph where
  "b2EmptyGraph = \<lparr> colors = replicate B2_GRAPH_COLOR_COUNT [], overflow = [],
                    bodyColors = (\<lambda>body. {}) \<rparr>"

text \<open>
  Modelled from the spec: a body "is represented" in a colour when that colour is in the
  body's colour bitmask.
\<close>

definition b2Represented :: "(nat \<Rightarrow> bool) \<Rightarrow> b2ConstraintGraph \<Rightarrow> nat \<Rightarrow> nat \<Rightarrow> bool" where
  "b2Represented dynamic g body i = (dynamic body \<and> i \<in> bodyColors g body)"

text \<open>Modelled from the spec: setting a colour in a body's colour bitmask.\<close>

definition b2MarkBody :: "(nat \<Rightarrow> bool) \<Rightarrow> nat \<Rightarrow> nat \<Rightarrow> (nat \<Rightarrow> nat set) \<Rightarrow> (nat \<Rightarrow> nat set)" where
  "b2MarkBody dynamic body i masks =
     (if dynamic body then masks(body := insert i (masks body)) else masks)"

text \<open>
  Modelled from the spec: the greedy assignment, "pick the lowest color index where
  neither body is yet represented; if no color has space, place the constraint in an
  overflow color".
\<close>

definition b2AssignColor :: "(nat \<Rightarrow> bool) \<Rightarrow> b2ConstraintGraph \<Rightarrow> b2Constraint \<Rightarrow> b2ConstraintGraph" where
  "b2AssignColor dynamic g k =
     (case find (\<lambda>i. \<not> b2Represented dynamic g (fst k) i \<and> \<not> b2Represented dynamic g (snd k) i)
                [0 ..< B2_GRAPH_COLOR_COUNT] of
        Some i \<Rightarrow> g\<lparr> colors := (colors g)[i := k # colors g ! i],
                     bodyColors := b2MarkBody dynamic (snd k) i
                                     (b2MarkBody dynamic (fst k) i (bodyColors g)) \<rparr>
      | None \<Rightarrow> g\<lparr> overflow := k # overflow g \<rparr>)"

text \<open>
  Modelled from the spec: the graph after the constraints of a list became active one
  after the other ("when a constraint becomes active").
\<close>

definition b2BuildGraph :: "(nat \<Rightarrow> bool) \<Rightarrow> b2Constraint list \<Rightarrow> b2ConstraintGraph" where
  "b2BuildGraph dynamic ks = foldl (b2AssignColor dynamic) b2EmptyGraph ks"

text \<open>Two constraints share a dynamic body.\<close>

definition b2ShareBody :: "(nat \<Rightarrow> bool) \<Rightarrow> b2Constraint \<Rightarrow> b2Constraint \<Rightarrow> bool" where
  "b2ShareBody dynamic k l =
     ((dynamic (fst k) \<and> (fst k = fst l \<or> fst k = snd l))
      \<or> (dynamic (snd k) \<and> (snd k = fst l \<or> snd k = snd l)))"

text \<open>
  The invariant of the colouring: there are \<open>B2_GRAPH_COLOR_COUNT\<close> colours, the colour
  bitmask of a dynamic body holds every colour in which the body has a constraint, and
  within a colour no two constraints share a dynamic body.
\<close>

definition b2GraphInvariant :: "(nat \<Rightarrow> bool) \<Rightarrow> b2ConstraintGraph \<Rightarrow> bool" where
  "b2GraphInvariant dynamic g =
     (length (colors g) = B2_GRAPH_COLOR_COUNT
      \<and> (\<forall>i < B2_GRAPH_COLOR_COUNT. \<forall>k \<in> set (colors g ! i).
            (dynamic (fst k) \<longrightarrow> i \<in> bodyColors g (fst k))
          \<and> (dynamic (snd k) \<longrightarrow> i \<in> bodyColors g (snd k)))
      \<and> (\<forall>i < B2_GRAPH_COLOR_COUNT. \<forall>p q. p < q \<and> q < length (colors g ! i) \<longrightarrow>
            \<not> b2ShareBody dynamic (colors g ! i ! p) (colors g ! i ! q)))"

section \<open>Theorems\<close>

subsection \<open>State pointers and the store\<close>

lemma b2StatePointer_null: "b2StatePointer ctx B2_NULL_INDEX = Inr DummyState"
  by (simp add: b2StatePointer_def)

lemma b2StatePointer_index:
  "i < length (states ctx) \<Longrightarrow> b2StatePointer ctx (int i) = Inr (ContextState i)"
  by (simp add: b2StatePointer_def B2_NULL_INDEX_def)

lemma b2StatePointer_cases:
  assumes "i = B2_NULL_INDEX \<or> (0 \<le> i \<and> i < int (length (states ctx)))"
  obtains "i = B2_NULL_INDEX" "b2StatePointer ctx i = Inr DummyState"
        | k where "i = int k" "k < length (states ctx)" "b2StatePointer ctx i = Inr (ContextState k)"
proof (cases "i = B2_NULL_INDEX")
  case True
  then show ?thesis using that(1) by (simp add: b2StatePointer_null)
next
  case False
  with assms have "0 \<le> i" "i < int (length (states ctx))" by auto
  then have "i = int (nat i)" "nat i < length (states ctx)" by auto
  then show ?thesis using that(2) [of "nat i"] b2StatePointer_index [of "nat i" ctx] by simp
qed

subsection \<open>Vector algebra\<close>

lemma b2MulSub_zero: "b2MulSub v k (b2Vec2_zero :: 'a::ring b2Vec2) = v"
  by (simp add: b2MulSub_def b2Vec2_zero_def)

lemma b2MulAdd_zero: "b2MulAdd v k (b2Vec2_zero :: 'a::ring b2Vec2) = v"
  by (simp add: b2MulAdd_def b2Vec2_zero_def)

lemma b2Cross_zero: "b2Cross v (b2Vec2_zero :: 'a::ring b2Vec2) = 0"
  by (simp add: b2Cross_def b2Vec2_zero_def)

lemma b2Length_MulSV: "b2Length (b2MulSV k v) = \<bar>k\<bar> * b2Length v"
proof -
  have "x (b2MulSV k v) * x (b2MulSV k v) + y (b2MulSV k v) * y (b2MulSV k v)
        = k\<^sup>2 * (x v * x v + y v * y v)"
    by (simp add: b2MulSV_def power2_eq_square algebra_simps)
  then show ?thesis
    by (simp add: b2Length_def real_sqrt_mult)
qed

lemma momentum_exchange:
  fixes mA mB :: "'a::field"
  assumes "mA \<noteq> 0" "mB \<noteq> 0"
  shows "b2Add (b2MulSV (1 / mA) (b2MulSub vA mA P)) (b2MulSV (1 / mB) (b2MulAdd vB mB P))
       = b2Add (b2MulSV (1 / mA) vA) (b2MulSV (1 / mB) vB)"
  using assms
  by (simp add: b2Add_def b2MulSV_def b2MulSub_def b2MulAdd_def field_simps)

lemma exact_exchange_identity:
  "b2ExactExchange (\<lambda>v. v) vA mA vB mB P"
  by (simp add: b2ExactExchange_def b2Vec2_map_def b2MulSub_def b2MulAdd_def)

subsection \<open>Rounding to binary32\<close>

text \<open>
  The rounding at known values: \<open>1/3\<close> is \<open>0x3EAAAAAB\<close> and \<open>1e-7\<close> is \<open>0x33D6BF95\<close>; ties go
  to the even significand; the largest finite value is \<open>2 ^ 128 - 2 ^ 104\<close>, and half a
  unit beyond it overflows; the subnormal numbers are multiples of \<open>1 / 2 ^ 149\<close>.
\<close>

lemma float32_round_examples:
  "float32_round (1 / 3) = Finite (11184811 / 2 ^ 25)"
  "float32_round (1 / 10000000) = Finite (14073749 / 2 ^ 47)"
  "float32_round 16777217 = Finite 16777216"
  "float32_round 16777219 = Finite 16777220"
  "float32_round (2 ^ 128 - 2 ^ 103 - 1) = Finite (2 ^ 128 - 2 ^ 104)"
  "float32_round (2 ^ 128 - 2 ^ 103) = PlusInfinity"
  "float32_round (3 / 2 ^ 150) = Finite (1 / 2 ^ 148)"
  "float32_round (- (1 / 2 ^ 150)) = Finite 0"
  by code_simp+

subsection \<open>The passes, entry by entry\<close>

lemma prepare_result:
  assumes "b2PrepareWeldJoint E base0 ctx = Inr base"
      and "b2Array_Get (bodies (world ctx)) (bodyIdA base0) = Inr bodyA"
      and "b2Array_Get (bodies (world ctx)) (bodyIdB base0) = Inr bodyB"
  shows "indexA (weldJoint base) = (if setIndex bodyA = b2_awakeSet then localIndex bodyA else B2_NULL_INDEX)"
    and "indexB (weldJoint base) = (if setIndex bodyB = b2_awakeSet then localIndex bodyB else B2_NULL_INDEX)"
    and "B2_ASSERT E (type base = b2_weldJoint)"
  using assms
  by (auto simp: b2PrepareWeldJoint_def b2PrepareWeldJoint_sims_def Let_def
           split: if_splits sum.splits)

lemma prepare_impulses:
  assumes "b2PrepareWeldJoint E base0 ctx = Inr base"
  shows "\<not> enableWarmStarting ctx \<Longrightarrow>
           linearImpulse (weldJoint base) = b2Vec2_zero \<and> angularImpulse (weldJoint base) = 0"
    and "enableWarmStarting ctx \<Longrightarrow>
           linearImpulse (weldJoint base) = linearImpulse (weldJoint base0)
         \<and> angularImpulse (weldJoint base) = angularImpulse (weldJoint base0)"
  using assms
  by (auto simp: b2PrepareWeldJoint_def b2PrepareWeldJoint_sims_def Let_def
           split: if_splits sum.splits)

lemma warm_start_zero:
  fixes E :: "'a::ring b2Env"
  assumes z: "linearImpulse (weldJoint base) = b2Vec2_zero" "angularImpulse (weldJoint base) = 0"
      and okA: "indexA (weldJoint base) = B2_NULL_INDEX \<or>
                (0 \<le> indexA (weldJoint base) \<and> indexA (weldJoint base) < int (length (states ctx)))"
      and okB: "indexB (weldJoint base) = B2_NULL_INDEX \<or>
                (0 \<le> indexB (weldJoint base) \<and> indexB (weldJoint base) < int (length (states ctx)))"
  shows "b2WarmStartWeldJoint E base ctx = Inr ctx"
  using okA
proof (cases rule: b2StatePointer_cases)
  case 1
  note a = this
  show ?thesis using okB
  proof (cases rule: b2StatePointer_cases)
    case 1
    then show ?thesis using a z
      by (simp add: b2WarmStartWeldJoint_def Let_def)
  next
    case (2 k)
    then show ?thesis using a z
      by (simp add: b2WarmStartWeldJoint_def Let_def b2MulAdd_zero b2Cross_zero)
  qed
next
  case (2 k)
  note a = this
  show ?thesis using okB
  proof (cases rule: b2StatePointer_cases)
    case 1
    then show ?thesis using a z
      by (simp add: b2WarmStartWeldJoint_def Let_def b2MulSub_zero b2Cross_zero)
  next
    case (2 k')
    then show ?thesis using a z
      by (simp add: b2WarmStartWeldJoint_def Let_def b2MulSub_zero b2MulAdd_zero b2Cross_zero)
  qed
qed

lemma warm_start_entries:
  assumes okA: "indexA (weldJoint base) = B2_NULL_INDEX \<or>
                (0 \<le> indexA (weldJoint base) \<and> indexA (weldJoint base) < int (length (states ctx)))"
      and okB: "indexB (weldJoint base) = B2_NULL_INDEX \<or>
                (0 \<le> indexB (weldJoint base) \<and> indexB (weldJoint base) < int (length (states ctx)))"
  shows "\<exists>ctx1. b2WarmStartWeldJoint E base ctx = Inr ctx1
     \<and> (\<forall>i. indexA (weldJoint base) = int i \<and> indexB (weldJoint base) \<noteq> int i \<longrightarrow>
           states ctx1 ! i = (states ctx ! i)\<lparr>
             linearVelocity := b2MulSub (linearVelocity (states ctx ! i)) (invMassA base)
                                 (linearImpulse (weldJoint base)),
             angularVelocity := angularVelocity (states ctx ! i) - invIA base *
                (b2Cross (b2RotateVector E (deltaRotation (states ctx ! i)) (p (frameA (weldJoint base))))
                   (linearImpulse (weldJoint base)) + angularImpulse (weldJoint base)) \<rparr>)
     \<and> (\<forall>j. indexB (weldJoint base) = int j \<and> indexA (weldJoint base) \<noteq> int j \<longrightarrow>
           states ctx1 ! j = (states ctx ! j)\<lparr>
             linearVelocity := b2MulAdd (linearVelocity (states ctx ! j)) (invMassB base)
                                 (linearImpulse (weldJoint base)),
             angularVelocity := angularVelocity (states ctx ! j) + invIB base *
                (b2Cross (b2RotateVector E (deltaRotation (states ctx ! j)) (p (frameB (weldJoint base))))
                   (linearImpulse (weldJoint base)) + angularImpulse (weldJoint base)) \<rparr>)"
  using okA
proof (cases rule: b2StatePointer_cases)
  case 1
  note a = this
  show ?thesis using okB
  proof (cases rule: b2StatePointer_cases)
    case 1
    then show ?thesis using a
      by (simp add: b2WarmStartWeldJoint_def Let_def B2_NULL_INDEX_def)
  next
    case (2 k)
    then show ?thesis using a
      by (simp add: b2WarmStartWeldJoint_def Let_def B2_NULL_INDEX_def)
  qed
next
  case (2 k)
  note a = this
  show ?thesis using okB
  proof (cases rule: b2StatePointer_cases)
    case 1
    then show ?thesis using a
      by (simp add: b2WarmStartWeldJoint_def Let_def B2_NULL_INDEX_def)
  next
    case (2 k')
    then show ?thesis using a
      by (auto simp add: b2WarmStartWeldJoint_def Let_def B2_NULL_INDEX_def)
  qed
qed

lemma angular_block:
  "\<exists>joint1 wA1 wB1. b2SolveWeldJoint_angular E joint iA iB useBias dA dB wA wB = (joint1, wA1, wB1)
     \<and> linearImpulse joint1 = linearImpulse joint"
  by (simp add: b2SolveWeldJoint_angular_def Let_def)

lemma linear_block:
  "\<exists>P wA2 wB2. b2SolveWeldJoint_linear E joint mA mB iA iB useBias stA stB vA wA vB wB =
     (joint\<lparr> linearImpulse := b2Add (linearImpulse joint) P \<rparr>,
      b2MulSub vA mA P, wA2, b2MulAdd vB mB P, wB2)"
  unfolding b2SolveWeldJoint_linear_def Let_def
  by (intro exI) (rule refl)

lemma solve_entries:
  assumes ty: "B2_ASSERT E (type base = b2_weldJoint)"
      and a: "indexA (weldJoint base) = int i" "i < length (states ctx)"
      and b: "indexB (weldJoint base) = int j" "j < length (states ctx)"
      and ne: "i \<noteq> j"
  shows "\<exists>base2 ctx2 P. b2SolveWeldJoint E base ctx useBias = Inr (base2, ctx2)
     \<and> linearImpulse (weldJoint base2) = b2Add (linearImpulse (weldJoint base)) P
     \<and> linearVelocity (states ctx2 ! i) = b2MulSub (linearVelocity (states ctx ! i)) (invMassA base) P
     \<and> linearVelocity (states ctx2 ! j) = b2MulAdd (linearVelocity (states ctx ! j)) (invMassB base) P"
proof -
  let ?sA = "states ctx ! i" and ?sB = "states ctx ! j"
  obtain joint1 wA1 wB1 where
    ang: "b2SolveWeldJoint_angular E (weldJoint base) (invIA base) (invIB base) useBias
            (deltaRotation ?sA) (deltaRotation ?sB) (angularVelocity ?sA) (angularVelocity ?sB)
          = (joint1, wA1, wB1)"
    and keep: "linearImpulse joint1 = linearImpulse (weldJoint base)"
    using angular_block by blast
  obtain P wA2 wB2 where
    lin: "b2SolveWeldJoint_linear E joint1 (invMassA base) (invMassB base) (invIA base) (invIB base)
            useBias ?sA ?sB (linearVelocity ?sA) wA1 (linearVelocity ?sB) wB1
          = (joint1\<lparr> linearImpulse := b2Add (linearImpulse joint1) P \<rparr>,
             b2MulSub (linearVelocity ?sA) (invMassA base) P, wA2,
             b2MulAdd (linearVelocity ?sB) (invMassB base) P, wB2)"
    using linear_block by blast
  show ?thesis
    using ty a b ne ang lin keep
    by (auto simp add: b2SolveWeldJoint_def b2StatePointer_index Let_def)
qed

subsection \<open>What a pass leaves alone\<close>

lemma warm_start_frame:
  assumes okA: "indexA (weldJoint base) = B2_NULL_INDEX \<or>
                (0 \<le> indexA (weldJoint base) \<and> indexA (weldJoint base) < int (length (states ctx)))"
      and okB: "indexB (weldJoint base) = B2_NULL_INDEX \<or>
                (0 \<le> indexB (weldJoint base) \<and> indexB (weldJoint base) < int (length (states ctx)))"
  shows "\<exists>ctx1. b2WarmStartWeldJoint E base ctx = Inr ctx1 \<and> world ctx1 = world ctx
           \<and> length (states ctx1) = length (states ctx)
           \<and> (\<forall>k. int k \<noteq> indexA (weldJoint base) \<and> int k \<noteq> indexB (weldJoint base)
                 \<longrightarrow> states ctx1 ! k = states ctx ! k)"
  using okA
proof (cases rule: b2StatePointer_cases)
  case 1
  note a = this
  show ?thesis using okB
  proof (cases rule: b2StatePointer_cases)
    case 1
    then show ?thesis using a
      by (simp add: b2WarmStartWeldJoint_def Let_def)
  next
    case (2 k)
    then show ?thesis using a
      by (simp add: b2WarmStartWeldJoint_def Let_def)
  qed
next
  case (2 k)
  note a = this
  show ?thesis using okB
  proof (cases rule: b2StatePointer_cases)
    case 1
    then show ?thesis using a
      by (simp add: b2WarmStartWeldJoint_def Let_def)
  next
    case (2 k')
    then show ?thesis using a
      by (simp add: b2WarmStartWeldJoint_def Let_def)
  qed
qed

lemma solve_frame:
  assumes ty: "B2_ASSERT E (type base = b2_weldJoint)"
      and okA: "indexA (weldJoint base) = B2_NULL_INDEX \<or>
                (0 \<le> indexA (weldJoint base) \<and> indexA (weldJoint base) < int (length (states ctx)))"
      and okB: "indexB (weldJoint base) = B2_NULL_INDEX \<or>
                (0 \<le> indexB (weldJoint base) \<and> indexB (weldJoint base) < int (length (states ctx)))"
  shows "\<exists>base2 ctx2. b2SolveWeldJoint E base ctx useBias = Inr (base2, ctx2) \<and> world ctx2 = world ctx
           \<and> length (states ctx2) = length (states ctx)
           \<and> (\<forall>k. int k \<noteq> indexA (weldJoint base) \<and> int k \<noteq> indexB (weldJoint base)
                 \<longrightarrow> states ctx2 ! k = states ctx ! k)"
  using okA
proof (cases rule: b2StatePointer_cases)
  case 1
  note a = this
  show ?thesis using okB
  proof (cases rule: b2StatePointer_cases)
    case 1
    then show ?thesis using a ty
      by (simp add: b2SolveWeldJoint_def Let_def split: prod.splits)
  next
    case (2 k)
    then show ?thesis using a ty
      by (simp add: b2SolveWeldJoint_def Let_def split: prod.splits)
  qed
next
  case (2 k)
  note a = this
  show ?thesis using okB
  proof (cases rule: b2StatePointer_cases)
    case 1
    then show ?thesis using a ty
      by (simp add: b2SolveWeldJoint_def Let_def split: prod.splits)
  next
    case (2 k')
    then show ?thesis using a ty
      by (simp add: b2SolveWeldJoint_def Let_def split: prod.splits)
  qed
qed

lemma warm_start_reads:
  assumes okA: "indexA (weldJoint base) = B2_NULL_INDEX \<or>
                (0 \<le> indexA (weldJoint base) \<and> indexA (weldJoint base) < int (length (states ctx)))"
      and okB: "indexB (weldJoint base) = B2_NULL_INDEX \<or>
                (0 \<le> indexB (weldJoint base) \<and> indexB (weldJoint base) < int (length (states ctx)))"
      and len: "length ss = length (states ctx)"
      and agree: "\<forall>k. int k = indexA (weldJoint base) \<or> int k = indexB (weldJoint base)
                    \<longrightarrow> ss ! k = states ctx ! k"
  shows "\<exists>c1 c2. b2WarmStartWeldJoint E base ctx = Inr c1
           \<and> b2WarmStartWeldJoint E base (ctx\<lparr> states := ss \<rparr>) = Inr c2
           \<and> (\<forall>k. int k = indexA (weldJoint base) \<or> int k = indexB (weldJoint base)
                 \<longrightarrow> states c2 ! k = states c1 ! k)"
proof -
  have sp: "b2StatePointer (ctx\<lparr> states := ss \<rparr>) i = b2StatePointer ctx i" for i
    using len by (simp add: b2StatePointer_def)
  show ?thesis
    using okA
  proof (cases rule: b2StatePointer_cases)
    case 1
    note a = this
    show ?thesis using okB
    proof (cases rule: b2StatePointer_cases)
      case 1
      then show ?thesis using a
        by (simp add: b2WarmStartWeldJoint_def Let_def sp B2_NULL_INDEX_def)
    next
      case (2 k)
      then show ?thesis using a agree len
        by (simp add: b2WarmStartWeldJoint_def Let_def sp B2_NULL_INDEX_def)
    qed
  next
    case (2 k)
    note a = this
    show ?thesis using okB
    proof (cases rule: b2StatePointer_cases)
      case 1
      then show ?thesis using a agree len
        by (simp add: b2WarmStartWeldJoint_def Let_def sp B2_NULL_INDEX_def)
    next
      case (2 k')
      then show ?thesis using a agree len
        by (auto simp add: b2WarmStartWeldJoint_def Let_def sp nth_list_update)
    qed
  qed
qed

lemma solve_reads:
  assumes ty: "B2_ASSERT E (type base = b2_weldJoint)"
      and okA: "indexA (weldJoint base) = B2_NULL_INDEX \<or>
                (0 \<le> indexA (weldJoint base) \<and> indexA (weldJoint base) < int (length (states ctx)))"
      and okB: "indexB (weldJoint base) = B2_NULL_INDEX \<or>
                (0 \<le> indexB (weldJoint base) \<and> indexB (weldJoint base) < int (length (states ctx)))"
      and len: "length ss = length (states ctx)"
      and agree: "\<forall>k. int k = indexA (weldJoint base) \<or> int k = indexB (weldJoint base)
                    \<longrightarrow> ss ! k = states ctx ! k"
  shows "\<exists>base2 c1 c2. b2SolveWeldJoint E base ctx useBias = Inr (base2, c1)
           \<and> b2SolveWeldJoint E base (ctx\<lparr> states := ss \<rparr>) useBias = Inr (base2, c2)
           \<and> (\<forall>k. int k = indexA (weldJoint base) \<or> int k = indexB (weldJoint base)
                 \<longrightarrow> states c2 ! k = states c1 ! k)"
proof -
  have sp: "b2StatePointer (ctx\<lparr> states := ss \<rparr>) i = b2StatePointer ctx i" for i
    using len by (simp add: b2StatePointer_def)
  show ?thesis
    using okA
  proof (cases rule: b2StatePointer_cases)
    case 1
    note a = this
    show ?thesis using okB
    proof (cases rule: b2StatePointer_cases)
      case 1
      then show ?thesis using a ty
        by (simp add: b2SolveWeldJoint_def Let_def sp B2_NULL_INDEX_def split: prod.splits)
    next
      case (2 k)
      then show ?thesis using a agree len ty
        by (simp add: b2SolveWeldJoint_def Let_def sp B2_NULL_INDEX_def split: prod.splits)
    qed
  next
    case (2 k)
    note a = this
    show ?thesis using okB
    proof (cases rule: b2StatePointer_cases)
      case 1
      then show ?thesis using a agree len ty
        by (simp add: b2SolveWeldJoint_def Let_def sp B2_NULL_INDEX_def split: prod.splits)
    next
      case (2 k')
      then show ?thesis using a agree len ty
        by (auto simp add: b2SolveWeldJoint_def Let_def sp nth_list_update split: prod.splits)
    qed
  qed
qed

subsection \<open>Colouring\<close>

lemma b2GraphInvariant_empty: "b2GraphInvariant dynamic b2EmptyGraph"
  by (simp add: b2GraphInvariant_def b2EmptyGraph_def)

lemma find_color:
  assumes "find P [0 ..< n] = Some i"
  shows "i < n \<and> P i"
  using assms by (auto simp: find_Some_iff)

lemma b2GraphInvariant_assign:
  assumes inv: "b2GraphInvariant dynamic g"
  shows "b2GraphInvariant dynamic (b2AssignColor dynamic g k)"
proof (cases "find (\<lambda>i. \<not> b2Represented dynamic g (fst k) i \<and> \<not> b2Represented dynamic g (snd k) i)
                [0 ..< B2_GRAPH_COLOR_COUNT]")
  case None
  then show ?thesis
    using inv by (simp add: b2AssignColor_def b2GraphInvariant_def)
next
  case (Some i)
  from find_color [OF Some] have i: "i < B2_GRAPH_COLOR_COUNT"
    and fa: "\<not> b2Represented dynamic g (fst k) i" and fb: "\<not> b2Represented dynamic g (snd k) i"
    by auto
  let ?g = "b2AssignColor dynamic g k"
  have g': "colors ?g = (colors g)[i := k # colors g ! i]"
       "bodyColors ?g = b2MarkBody dynamic (snd k) i (b2MarkBody dynamic (fst k) i (bodyColors g))"
    using Some by (simp_all add: b2AssignColor_def)
  from inv have len: "length (colors g) = B2_GRAPH_COLOR_COUNT"
    and marks: "\<And>j l. j < B2_GRAPH_COLOR_COUNT \<Longrightarrow> l \<in> set (colors g ! j) \<Longrightarrow>
            (dynamic (fst l) \<longrightarrow> j \<in> bodyColors g (fst l))
          \<and> (dynamic (snd l) \<longrightarrow> j \<in> bodyColors g (snd l))"
    and apart: "\<And>j p q. j < B2_GRAPH_COLOR_COUNT \<Longrightarrow> p < q \<Longrightarrow> q < length (colors g ! j) \<Longrightarrow>
            \<not> b2ShareBody dynamic (colors g ! j ! p) (colors g ! j ! q)"
    by (auto simp: b2GraphInvariant_def)
  have mono: "j \<in> bodyColors g body \<Longrightarrow> j \<in> bodyColors ?g body" for j body
    by (auto simp: g' b2MarkBody_def)
  have new: "(dynamic (fst k) \<longrightarrow> i \<in> bodyColors ?g (fst k))
           \<and> (dynamic (snd k) \<longrightarrow> i \<in> bodyColors ?g (snd k))"
    by (simp add: g' b2MarkBody_def)
  have fresh: "\<not> b2ShareBody dynamic k l" if "l \<in> set (colors g ! i)" for l
    using marks [OF i that] fa fb
    by (auto simp: b2ShareBody_def b2Represented_def)
  have 1: "length (colors ?g) = B2_GRAPH_COLOR_COUNT"
    using len by (simp add: g')
  have 2: "(dynamic (fst l) \<longrightarrow> j \<in> bodyColors ?g (fst l))
         \<and> (dynamic (snd l) \<longrightarrow> j \<in> bodyColors ?g (snd l))"
    if "j < B2_GRAPH_COLOR_COUNT" "l \<in> set (colors ?g ! j)" for j l
  proof (cases "j = i")
    case True
    with that len have "l = k \<or> l \<in> set (colors g ! i)"
      by (auto simp: g')
    then show ?thesis
      using new marks [OF i] mono True by blast
  next
    case False
    with that len have "l \<in> set (colors g ! j)"
      by (simp add: g')
    then show ?thesis
      using marks [OF that(1)] mono by blast
  qed
  have 3: "\<not> b2ShareBody dynamic (colors ?g ! j ! p) (colors ?g ! j ! q)"
    if j: "j < B2_GRAPH_COLOR_COUNT" and pq: "p < q" and ql: "q < length (colors ?g ! j)" for j p q
  proof (cases "j = i")
    case True
    have c: "colors ?g ! j = k # colors g ! i"
      using True i len by (simp add: g')
    obtain q' where q': "q = Suc q'"
      using pq by (cases q) auto
    have q'len: "q' < length (colors g ! i)"
      using ql c q' by simp
    show ?thesis
    proof (cases p)
      case 0
      then show ?thesis
        using fresh [of "colors g ! i ! q'"] q'len c q' by simp
    next
      case (Suc p')
      then show ?thesis
        using apart [OF i, of p' q'] pq q'len c q' by simp
    qed
  next
    case False
    then have "colors ?g ! j = colors g ! j"
      by (simp add: g')
    then show ?thesis
      using apart [OF j pq] ql by simp
  qed
  show ?thesis
    unfolding b2GraphInvariant_def using 1 2 3 by blast
qed

lemma b2GraphInvariant_foldl:
  "b2GraphInvariant dynamic g \<Longrightarrow> b2GraphInvariant dynamic (foldl (b2AssignColor dynamic) g ks)"
  by (induction ks arbitrary: g) (simp_all add: b2GraphInvariant_assign)

lemma concat_update_cons:
  assumes "i < length xss"
  shows "set (concat (xss[i := k # xss ! i])) = insert k (set (concat xss))"
proof -
  have "set (concat (xss[i := k # xss ! i]))
        = set (concat (take i xss @ (k # xss ! i) # drop (Suc i) xss))"
    using assms by (simp only: upd_conv_take_nth_drop)
  also have "\<dots> = insert k (set (concat (take i xss @ xss ! i # drop (Suc i) xss)))"
    by auto
  also have "take i xss @ xss ! i # drop (Suc i) xss = xss"
    using assms by (rule id_take_nth_drop [symmetric])
  finally show ?thesis .
qed

lemma assign_placed:
  assumes "length (colors g) = B2_GRAPH_COLOR_COUNT"
  shows "length (colors (b2AssignColor dynamic g k)) = B2_GRAPH_COLOR_COUNT
       \<and> set (concat (colors (b2AssignColor dynamic g k))) \<union> set (overflow (b2AssignColor dynamic g k))
         = insert k (set (concat (colors g)) \<union> set (overflow g))"
proof (cases "find (\<lambda>i. \<not> b2Represented dynamic g (fst k) i \<and> \<not> b2Represented dynamic g (snd k) i)
                [0 ..< B2_GRAPH_COLOR_COUNT]")
  case None
  then show ?thesis
    using assms by (simp add: b2AssignColor_def)
next
  case (Some i)
  from find_color [OF Some] have i: "i < length (colors g)"
    using assms by simp
  have "set (concat ((colors g)[i := k # colors g ! i])) = insert k (set (concat (colors g)))"
    by (rule concat_update_cons [OF i])
  then show ?thesis
    using Some assms by (simp add: b2AssignColor_def)
qed

lemma foldl_placed:
  assumes "length (colors g) = B2_GRAPH_COLOR_COUNT"
  shows "set (concat (colors (foldl (b2AssignColor dynamic) g ks)))
           \<union> set (overflow (foldl (b2AssignColor dynamic) g ks))
         = set ks \<union> (set (concat (colors g)) \<union> set (overflow g))"
  using assms
proof (induction ks arbitrary: g)
  case Nil
  then show ?case by simp
next
  case (Cons k ks)
  from assign_placed [OF Cons.prems, of dynamic k] Cons.IH [of "b2AssignColor dynamic g k"]
  show ?case by auto
qed


text \<open>
  The overflow colour is not covered by the invariant: once a dynamic body has a
  constraint in each of the 24 colours, its further constraints meet in the overflow
  colour.
\<close>

lemma overflow_can_share_body:
  "overflow (b2BuildGraph (\<lambda>body. True) (map (\<lambda>n. (0, Suc n)) [0 ..< 26])) = [(0, 26), (0, 25)]
   \<and> b2ShareBody (\<lambda>body. True) (0, 26) (0, 25)"
  by code_simp

subsection \<open>The concrete scene\<close>

lemmas scene_defs =
  scene_env_def scene_sim_def scene_world_def scene_state_def scene_ctx_def scene_joint_def
  b2_staticSet_def b2_awakeSet_def B2_NULL_INDEX_def B2_ASSERT_def b2Array_Get_def
  b2Vec2_zero_def b2Sub_def b2Add_def b2MulSub_def b2MulAdd_def b2MulSV_def b2Cross_def
  b2CrossSV_def

lemma scene_prepare:
  "\<exists>base. b2PrepareWeldJoint scene_env (scene_joint 1 2) (scene_ctx warm) = Inr base
     \<and> indexA (weldJoint base) = 0 \<and> indexB (weldJoint base) = 1
     \<and> invMassA base = 2 \<and> invMassB base = 4 \<and> type base = b2_weldJoint"
  by (simp add: b2PrepareWeldJoint_def b2PrepareWeldJoint_sims_def Let_def scene_defs)

lemma scene_prepare_ground:
  "\<exists>base. b2PrepareWeldJoint scene_env (scene_joint 0 2) (scene_ctx warm) = Inr base
     \<and> indexA (weldJoint base) = B2_NULL_INDEX \<and> indexB (weldJoint base) = 1"
  by (simp add: b2PrepareWeldJoint_def b2PrepareWeldJoint_sims_def Let_def scene_defs)

section \<open>The claims\<close>
text \<open>
  C3. The solver set indices are fixed: the static set is 0, the disabled set is 1, the
  awake set is 2, and the sleeping-island sets start at 3, above the three fixed sets.
\<close>

theorem b2SetType_indices:
  "b2_staticSet = 0 \<and> b2_disabledSet = 1 \<and> b2_awakeSet = 2 \<and> b2_firstSleepingSet = 3
   \<and> b2_staticSet < b2_firstSleepingSet \<and> b2_disabledSet < b2_firstSleepingSet
   \<and> b2_awakeSet < b2_firstSleepingSet"
  by (simp add: b2_staticSet_def b2_disabledSet_def b2_awakeSet_def b2_firstSleepingSet_def)

text \<open>
  C1. With warm starting disabled in the step context, preparing a weld joint zeroes its
  stored linear and angular impulse, and the warm start that follows returns the context
  as it was: no velocity of either body changes. With warm starting enabled, preparing
  keeps the stored impulses and the warm start applies them: body A's entry loses
  \<open>invMassA \<cdot> P\<close> of linear and \<open>invIA \<cdot> (rA \<times> P + L)\<close> of angular velocity, body B's entry
  gains the same with its own inverse mass and inertia.
\<close>

theorem weld_warm_start_follows_flag:
  fixes E :: "'a::linordered_field b2Env"
  assumes prep: "b2PrepareWeldJoint E base0 ctx = Inr base"
      and okA: "indexA (weldJoint base) = B2_NULL_INDEX \<or>
                (0 \<le> indexA (weldJoint base) \<and> indexA (weldJoint base) < int (length (states ctx)))"
      and okB: "indexB (weldJoint base) = B2_NULL_INDEX \<or>
                (0 \<le> indexB (weldJoint base) \<and> indexB (weldJoint base) < int (length (states ctx)))"
  shows "(\<not> enableWarmStarting ctx \<longrightarrow>
            linearImpulse (weldJoint base) = b2Vec2_zero
          \<and> angularImpulse (weldJoint base) = 0
          \<and> b2WarmStartWeldJoint E base ctx = Inr ctx)
       \<and> (enableWarmStarting ctx \<longrightarrow>
            linearImpulse (weldJoint base) = linearImpulse (weldJoint base0)
          \<and> angularImpulse (weldJoint base) = angularImpulse (weldJoint base0)
          \<and> (\<exists>ctx1. b2WarmStartWeldJoint E base ctx = Inr ctx1
               \<and> (\<forall>i. indexA (weldJoint base) = int i \<and> indexB (weldJoint base) \<noteq> int i \<longrightarrow>
                     states ctx1 ! i = (states ctx ! i)\<lparr>
                       linearVelocity := b2MulSub (linearVelocity (states ctx ! i)) (invMassA base)
                                           (linearImpulse (weldJoint base)),
                       angularVelocity := angularVelocity (states ctx ! i) - invIA base *
                          (b2Cross (b2RotateVector E (deltaRotation (states ctx ! i))
                                      (p (frameA (weldJoint base))))
                             (linearImpulse (weldJoint base)) + angularImpulse (weldJoint base)) \<rparr>)
               \<and> (\<forall>j. indexB (weldJoint base) = int j \<and> indexA (weldJoint base) \<noteq> int j \<longrightarrow>
                     states ctx1 ! j = (states ctx ! j)\<lparr>
                       linearVelocity := b2MulAdd (linearVelocity (states ctx ! j)) (invMassB base)
                                           (linearImpulse (weldJoint base)),
                       angularVelocity := angularVelocity (states ctx ! j) + invIB base *
                          (b2Cross (b2RotateVector E (deltaRotation (states ctx ! j))
                                      (p (frameB (weldJoint base))))
                             (linearImpulse (weldJoint base)) + angularImpulse (weldJoint base)) \<rparr>)))"
proof -
  have cold: "linearImpulse (weldJoint base) = b2Vec2_zero \<and> angularImpulse (weldJoint base) = 0
              \<and> b2WarmStartWeldJoint E base ctx = Inr ctx" if "\<not> enableWarmStarting ctx"
    using prepare_impulses(1) [OF prep that] warm_start_zero [OF _ _ okA okB, of E] by simp
  have keep: "linearImpulse (weldJoint base) = linearImpulse (weldJoint base0)
              \<and> angularImpulse (weldJoint base) = angularImpulse (weldJoint base0)"
    if "enableWarmStarting ctx"
    using prepare_impulses(2) [OF prep that] .
  show ?thesis
    using cold keep warm_start_entries [OF okA okB, of E]
    by (cases "enableWarmStarting ctx") simp_all
qed

theorem weld_warm_start_follows_flag_witness:
  "\<exists>cold hot ctx1.
      b2PrepareWeldJoint scene_env (scene_joint 1 2) (scene_ctx False) = Inr cold
    \<and> linearImpulse (weldJoint cold) = b2Vec2_zero
    \<and> b2WarmStartWeldJoint scene_env cold (scene_ctx False) = Inr (scene_ctx False)
    \<and> b2PrepareWeldJoint scene_env (scene_joint 1 2) (scene_ctx True) = Inr hot
    \<and> linearImpulse (weldJoint hot) = \<lparr> x = 2, y = - 1 \<rparr>
    \<and> b2WarmStartWeldJoint scene_env hot (scene_ctx True) = Inr ctx1
    \<and> linearVelocity (states ctx1 ! 0) = \<lparr> x = - 3, y = 4 \<rparr>
    \<and> linearVelocity (states ctx1 ! 1) = \<lparr> x = 12, y = 1 \<rparr>"
proof -
  obtain cold where cold: "b2PrepareWeldJoint scene_env (scene_joint 1 2) (scene_ctx False) = Inr cold"
    and ci: "indexA (weldJoint cold) = 0" "indexB (weldJoint cold) = 1"
    using scene_prepare [of False] by blast
  obtain hot where hot: "b2PrepareWeldJoint scene_env (scene_joint 1 2) (scene_ctx True) = Inr hot"
    and hi: "indexA (weldJoint hot) = 0" "indexB (weldJoint hot) = 1"
    and hm: "invMassA hot = 2" "invMassB hot = 4"
    using scene_prepare [of True] by blast
  have "\<not> enableWarmStarting (scene_ctx False)" "enableWarmStarting (scene_ctx True)"
    by (simp_all add: scene_ctx_def)
  moreover have "length (states (scene_ctx warm)) = 2" for warm
    by (simp add: scene_ctx_def)
  ultimately show ?thesis
    using weld_warm_start_follows_flag [OF cold] weld_warm_start_follows_flag [OF hot]
      cold hot ci hi hm
    apply (simp add: B2_NULL_INDEX_def)
    apply (elim exE conjE)
    apply (simp add: scene_ctx_def scene_state_def scene_joint_def b2MulSub_def b2MulAdd_def)
    done
qed

text \<open>
  C9, as amended. For a weld joint between two bodies that the solver simulates (distinct
  entries of the context's state array), a warm start sets body A's linear velocity to
  \<open>b2MulSub vA invMassA P\<close> and body B's to \<open>b2MulAdd vB invMassB P\<close> for the stored linear
  impulse \<open>P\<close>, and a solve does the same with the impulse \<open>P\<close> that it computes and adds
  to the stored one: the same impulse, with opposite signs. This holds in any arithmetic.
  For positive finite masses, the pass leaves the total linear momentum of the pair
  unchanged whenever these two updates are computed without rounding error, as they
  are in exact arithmetic.
\<close>

theorem weld_impulse_equal_and_opposite:
  fixes E :: "'a::{zero,one,plus,minus,uminus,times,ord} b2Env"
    and val :: "'a \<Rightarrow> 'b::linordered_field"
  assumes ty: "type base = b2_weldJoint"
      and a: "indexA (weldJoint base) = int i" "i < length (states ctx)"
      and b: "indexB (weldJoint base) = int j" "j < length (states ctx)"
      and ne: "i \<noteq> j"
      and mass: "0 < val (invMassA base)" "0 < val (invMassB base)"
  shows "(\<exists>ctx1. b2WarmStartWeldJoint E base ctx = Inr ctx1
           \<and> linearVelocity (states ctx1 ! i) =
               b2MulSub (linearVelocity (states ctx ! i)) (invMassA base) (linearImpulse (weldJoint base))
           \<and> linearVelocity (states ctx1 ! j) =
               b2MulAdd (linearVelocity (states ctx ! j)) (invMassB base) (linearImpulse (weldJoint base))
           \<and> (b2ExactExchange val (linearVelocity (states ctx ! i)) (invMassA base)
                 (linearVelocity (states ctx ! j)) (invMassB base) (linearImpulse (weldJoint base))
               \<longrightarrow> b2PairMomentum val base (states ctx1 ! i) (states ctx1 ! j) =
                   b2PairMomentum val base (states ctx ! i) (states ctx ! j)))
       \<and> (\<exists>base2 ctx2 P. b2SolveWeldJoint E base ctx useBias = Inr (base2, ctx2)
           \<and> linearImpulse (weldJoint base2) = b2Add (linearImpulse (weldJoint base)) P
           \<and> linearVelocity (states ctx2 ! i) =
               b2MulSub (linearVelocity (states ctx ! i)) (invMassA base) P
           \<and> linearVelocity (states ctx2 ! j) =
               b2MulAdd (linearVelocity (states ctx ! j)) (invMassB base) P
           \<and> (b2ExactExchange val (linearVelocity (states ctx ! i)) (invMassA base)
                 (linearVelocity (states ctx ! j)) (invMassB base) P
               \<longrightarrow> b2PairMomentum val base (states ctx2 ! i) (states ctx2 ! j) =
                   b2PairMomentum val base (states ctx ! i) (states ctx ! j)))"
proof -
  have okA: "indexA (weldJoint base) = B2_NULL_INDEX \<or>
             (0 \<le> indexA (weldJoint base) \<and> indexA (weldJoint base) < int (length (states ctx)))"
    using a by simp
  have okB: "indexB (weldJoint base) = B2_NULL_INDEX \<or>
             (0 \<le> indexB (weldJoint base) \<and> indexB (weldJoint base) < int (length (states ctx)))"
    using b by simp
  have nz: "val (invMassA base) \<noteq> 0" "val (invMassB base) \<noteq> 0"
    using mass by simp_all
  have kept: "b2PairMomentum val base stA stB =
              b2PairMomentum val base (states ctx ! i) (states ctx ! j)"
    if "linearVelocity stA = b2MulSub (linearVelocity (states ctx ! i)) (invMassA base) P"
      and "linearVelocity stB = b2MulAdd (linearVelocity (states ctx ! j)) (invMassB base) P"
      and "b2ExactExchange val (linearVelocity (states ctx ! i)) (invMassA base)
             (linearVelocity (states ctx ! j)) (invMassB base) P"
    for stA stB P
    using that by (simp add: b2PairMomentum_def b2ExactExchange_def momentum_exchange [OF nz])
  from warm_start_entries [OF okA okB, of E] obtain ctx1 where
    w: "b2WarmStartWeldJoint E base ctx = Inr ctx1"
    and wA: "linearVelocity (states ctx1 ! i) =
               b2MulSub (linearVelocity (states ctx ! i)) (invMassA base) (linearImpulse (weldJoint base))"
    and wB: "linearVelocity (states ctx1 ! j) =
               b2MulAdd (linearVelocity (states ctx ! j)) (invMassB base) (linearImpulse (weldJoint base))"
    using a b ne by auto
  have ty': "B2_ASSERT E (type base = b2_weldJoint)"
    using ty by (simp add: B2_ASSERT_def)
  from solve_entries [OF ty' a b ne, of useBias] obtain base2 ctx2 P where
    s: "b2SolveWeldJoint E base ctx useBias = Inr (base2, ctx2)"
    and sP: "linearImpulse (weldJoint base2) = b2Add (linearImpulse (weldJoint base)) P"
    and sA: "linearVelocity (states ctx2 ! i) =
               b2MulSub (linearVelocity (states ctx ! i)) (invMassA base) P"
    and sB: "linearVelocity (states ctx2 ! j) =
               b2MulAdd (linearVelocity (states ctx ! j)) (invMassB base) P"
    by blast
  show ?thesis
    using w wA wB kept [OF wA wB] s sP sA sB kept [OF sA sB] by blast
qed

theorem weld_impulse_equal_and_opposite_witness:
  "0 < float32_value (invMassA (float_joint (Finite (1 / 4))))
   \<and> 0 < float32_value (invMassB (float_joint (Finite (1 / 4))))
   \<and> b2ExactExchange float32_value \<lparr> x = Finite 1, y = 0 \<rparr> (Finite 2) \<lparr> x = Finite 4, y = 0 \<rparr> (Finite 4)
        \<lparr> x = Finite (1 / 4), y = 0 \<rparr>
   \<and> b2WarmStartWeldJoint float_env (float_joint (Finite (1 / 4))) float_ctx
       = Inr (float_ctx\<lparr> states := [float_state (Finite (1 / 2)), float_state (Finite 5)] \<rparr>)
   \<and> b2PairMomentum float32_value (float_joint (Finite (1 / 4)))
         (float_state (Finite (1 / 2))) (float_state (Finite 5))
       = b2PairMomentum float32_value (float_joint (Finite (1 / 4)))
           (float_state (Finite 1)) (float_state (Finite 4))
   \<and> (\<exists>base ctx1 base2 ctx2.
        b2PrepareWeldJoint scene_env (scene_joint 1 2) (scene_ctx True) = Inr base
      \<and> 0 < invMassA base \<and> 0 < invMassB base
      \<and> b2WarmStartWeldJoint scene_env base (scene_ctx True) = Inr ctx1
      \<and> b2PairMomentum (\<lambda>v. v) base (states ctx1 ! 0) (states ctx1 ! 1) = \<lparr> x = 3 / 2, y = 9 / 4 \<rparr>
      \<and> b2SolveWeldJoint scene_env base (scene_ctx True) True = Inr (base2, ctx2)
      \<and> b2PairMomentum (\<lambda>v. v) base (states ctx2 ! 0) (states ctx2 ! 1) = \<lparr> x = 3 / 2, y = 9 / 4 \<rparr>)"
proof -
  let ?joint = "float_joint (Finite (1 / 4))"
  have fty: "type ?joint = b2_weldJoint"
    and fa: "indexA (weldJoint ?joint) = int 0" and fb: "indexB (weldJoint ?joint) = int 1"
    by (simp_all add: float_joint_def)
  have flen: "0 < length (states float_ctx)" "1 < length (states float_ctx)"
    by (simp_all add: float_ctx_def)
  have fmass: "0 < float32_value (invMassA ?joint)" "0 < float32_value (invMassB ?joint)"
    by (simp_all add: float_joint_def)
  have fst: "states float_ctx ! 0 = float_state (Finite 1)"
            "states float_ctx ! Suc 0 = float_state (Finite 4)"
    by (simp_all add: float_ctx_def)
  have fv: "linearVelocity (float_state (Finite 1)) = \<lparr> x = Finite 1, y = 0 \<rparr>"
           "linearVelocity (float_state (Finite 4)) = \<lparr> x = Finite 4, y = 0 \<rparr>"
           "invMassA ?joint = Finite 2" "invMassB ?joint = Finite 4"
           "linearImpulse (weldJoint ?joint) = \<lparr> x = Finite (1 / 4), y = 0 \<rparr>"
    by (simp_all add: float_state_def float_joint_def)
  have exact: "b2ExactExchange float32_value \<lparr> x = Finite 1, y = 0 \<rparr> (Finite 2)
                 \<lparr> x = Finite 4, y = 0 \<rparr> (Finite 4) \<lparr> x = Finite (1 / 4), y = 0 \<rparr>"
    by code_simp
  have run: "b2WarmStartWeldJoint float_env ?joint float_ctx
             = Inr (float_ctx\<lparr> states := [float_state (Finite (1 / 2)), float_state (Finite 5)] \<rparr>)"
    by code_simp
  have float_part: "b2PairMomentum float32_value ?joint
         (float_state (Finite (1 / 2))) (float_state (Finite 5))
       = b2PairMomentum float32_value ?joint (float_state (Finite 1)) (float_state (Finite 4))"
    using weld_impulse_equal_and_opposite
            [OF fty fa flen(1) fb flen(2) _ fmass, of float_env True] exact
    by (simp add: run fst fv)
  obtain base where prep: "b2PrepareWeldJoint scene_env (scene_joint 1 2) (scene_ctx True) = Inr base"
    and ix: "indexA (weldJoint base) = int 0" "indexB (weldJoint base) = int 1"
    and m: "invMassA base = 2" "invMassB base = 4"
    and ty: "type base = b2_weldJoint"
    using scene_prepare [of True] by auto
  have len: "0 < length (states (scene_ctx True))" "1 < length (states (scene_ctx True))"
    by (simp_all add: scene_ctx_def)
  have pos: "0 < invMassA base" "0 < invMassB base"
    using m by simp_all
  have before: "b2PairMomentum (\<lambda>v. v) base (states (scene_ctx True) ! 0) (states (scene_ctx True) ! 1)
                = \<lparr> x = 3 / 2, y = 9 / 4 \<rparr>"
    using m
    by (simp add: b2PairMomentum_def b2Vec2_map_def scene_ctx_def scene_state_def b2Add_def b2MulSV_def)
  have exact_part: "\<exists>ctx1 base2 ctx2.
        b2WarmStartWeldJoint scene_env base (scene_ctx True) = Inr ctx1
      \<and> b2PairMomentum (\<lambda>v. v) base (states ctx1 ! 0) (states ctx1 ! 1) = \<lparr> x = 3 / 2, y = 9 / 4 \<rparr>
      \<and> b2SolveWeldJoint scene_env base (scene_ctx True) True = Inr (base2, ctx2)
      \<and> b2PairMomentum (\<lambda>v. v) base (states ctx2 ! 0) (states ctx2 ! 1) = \<lparr> x = 3 / 2, y = 9 / 4 \<rparr>"
    using weld_impulse_equal_and_opposite
            [OF ty ix(1) len(1) ix(2) len(2) _ pos, of scene_env True] before
    by (auto simp: exact_exchange_identity)
  show ?thesis
    using fmass exact run float_part prep pos exact_part by blast
qed

text \<open>
  C9, as stated, fails in the arithmetic of the code. With inverse masses 2 and 4,
  velocities \<open>(1, 0)\<close> and \<open>(4, 0)\<close> and the stored impulse \<open>(1e-7f, 0)\<close>, the warm start
  rounds \<open>1 - 2 P\<close> down to \<open>1 - 3 / 2 ^ 24\<close> and \<open>4 + 4 P\<close> up to \<open>4 + 1 / 2 ^ 21\<close>: the
  momentum of the pair goes from \<open>3 / 2\<close> to \<open>3 / 2 + 1 / 2 ^ 25\<close>.
\<close>

theorem weld_momentum_rounding_counterexample:
  "b2WarmStartWeldJoint float_env (float_joint (float32_round (1 / 10000000))) float_ctx
     = Inr (float_ctx\<lparr> states := [float_state (Finite (16777213 / 16777216)),
                                  float_state (Finite (8388609 / 2097152))] \<rparr>)
   \<and> states float_ctx = [float_state (Finite 1), float_state (Finite 4)]
   \<and> b2PairMomentum float32_value (float_joint (float32_round (1 / 10000000)))
         (float_state (Finite 1)) (float_state (Finite 4))
       = \<lparr> x = 3 / 2, y = 0 \<rparr>
   \<and> b2PairMomentum float32_value (float_joint (float32_round (1 / 10000000)))
         (float_state (Finite (16777213 / 16777216))) (float_state (Finite (8388609 / 2097152)))
       = \<lparr> x = 50331649 / 33554432, y = 0 \<rparr>"
  by code_simp

text \<open>
  C10. After preparing, a body outside the awake set has the cached index
  \<open>B2_NULL_INDEX\<close>, an awake body has its index in the awake set. The warm start and the
  solve then succeed, leave the world (where the bodies outside the awake set live)
  and the length of the state array as they were, and change no entry of the state array
  other than those of the joint's awake bodies. The entries of the joint's awake bodies
  after the pass, and the joint after a solve, are the same for any other state array
  that agrees on those entries: for a body outside the awake set nothing but the local
  dummy state is read.
\<close>

theorem weld_passes_touch_awake_states_only:
  assumes prep: "b2PrepareWeldJoint E base0 ctx = Inr base"
      and bodyA: "b2Array_Get (bodies (world ctx)) (bodyIdA base0) = Inr bodyA"
      and bodyB: "b2Array_Get (bodies (world ctx)) (bodyIdB base0) = Inr bodyB"
      and okA: "setIndex bodyA = b2_awakeSet \<Longrightarrow>
                  0 \<le> localIndex bodyA \<and> localIndex bodyA < int (length (states ctx))"
      and okB: "setIndex bodyB = b2_awakeSet \<Longrightarrow>
                  0 \<le> localIndex bodyB \<and> localIndex bodyB < int (length (states ctx))"
  shows "indexA (weldJoint base) = (if setIndex bodyA = b2_awakeSet then localIndex bodyA else B2_NULL_INDEX)
       \<and> indexB (weldJoint base) = (if setIndex bodyB = b2_awakeSet then localIndex bodyB else B2_NULL_INDEX)
       \<and> (\<exists>ctx1. b2WarmStartWeldJoint E base ctx = Inr ctx1
             \<and> world ctx1 = world ctx
             \<and> length (states ctx1) = length (states ctx)
             \<and> (\<forall>k. \<not> (setIndex bodyA = b2_awakeSet \<and> int k = localIndex bodyA)
                    \<and> \<not> (setIndex bodyB = b2_awakeSet \<and> int k = localIndex bodyB)
                    \<longrightarrow> states ctx1 ! k = states ctx ! k)
             \<and> (\<forall>ss. length ss = length (states ctx)
                    \<and> (\<forall>k. (setIndex bodyA = b2_awakeSet \<and> int k = localIndex bodyA)
                           \<or> (setIndex bodyB = b2_awakeSet \<and> int k = localIndex bodyB)
                           \<longrightarrow> ss ! k = states ctx ! k)
                    \<longrightarrow> (\<exists>ctx1'. b2WarmStartWeldJoint E base (ctx\<lparr> states := ss \<rparr>) = Inr ctx1'
                          \<and> (\<forall>k. (setIndex bodyA = b2_awakeSet \<and> int k = localIndex bodyA)
                                 \<or> (setIndex bodyB = b2_awakeSet \<and> int k = localIndex bodyB)
                                 \<longrightarrow> states ctx1' ! k = states ctx1 ! k))))
       \<and> (\<exists>base2 ctx2. b2SolveWeldJoint E base ctx useBias = Inr (base2, ctx2)
             \<and> world ctx2 = world ctx
             \<and> length (states ctx2) = length (states ctx)
             \<and> (\<forall>k. \<not> (setIndex bodyA = b2_awakeSet \<and> int k = localIndex bodyA)
                    \<and> \<not> (setIndex bodyB = b2_awakeSet \<and> int k = localIndex bodyB)
                    \<longrightarrow> states ctx2 ! k = states ctx ! k)
             \<and> (\<forall>ss. length ss = length (states ctx)
                    \<and> (\<forall>k. (setIndex bodyA = b2_awakeSet \<and> int k = localIndex bodyA)
                           \<or> (setIndex bodyB = b2_awakeSet \<and> int k = localIndex bodyB)
                           \<longrightarrow> ss ! k = states ctx ! k)
                    \<longrightarrow> (\<exists>ctx2'. b2SolveWeldJoint E base (ctx\<lparr> states := ss \<rparr>) useBias = Inr (base2, ctx2')
                          \<and> (\<forall>k. (setIndex bodyA = b2_awakeSet \<and> int k = localIndex bodyA)
                                 \<or> (setIndex bodyB = b2_awakeSet \<and> int k = localIndex bodyB)
                                 \<longrightarrow> states ctx2' ! k = states ctx2 ! k))))"
proof -
  note r = prepare_result [OF prep bodyA bodyB]
  have iA: "indexA (weldJoint base) = B2_NULL_INDEX \<or>
            (0 \<le> indexA (weldJoint base) \<and> indexA (weldJoint base) < int (length (states ctx)))"
    using r(1) okA by (cases "setIndex bodyA = b2_awakeSet") simp_all
  have iB: "indexB (weldJoint base) = B2_NULL_INDEX \<or>
            (0 \<le> indexB (weldJoint base) \<and> indexB (weldJoint base) < int (length (states ctx)))"
    using r(2) okB by (cases "setIndex bodyB = b2_awakeSet") simp_all
  have mine: "(int k = indexA (weldJoint base) \<or> int k = indexB (weldJoint base))
              = ((setIndex bodyA = b2_awakeSet \<and> int k = localIndex bodyA)
                 \<or> (setIndex bodyB = b2_awakeSet \<and> int k = localIndex bodyB))" for k
    using r(1,2) by (auto simp: B2_NULL_INDEX_def)
  have warm: "\<exists>ctx1. b2WarmStartWeldJoint E base ctx = Inr ctx1
             \<and> world ctx1 = world ctx
             \<and> length (states ctx1) = length (states ctx)
             \<and> (\<forall>k. \<not> (int k = indexA (weldJoint base) \<or> int k = indexB (weldJoint base))
                    \<longrightarrow> states ctx1 ! k = states ctx ! k)
             \<and> (\<forall>ss. length ss = length (states ctx)
                    \<and> (\<forall>k. int k = indexA (weldJoint base) \<or> int k = indexB (weldJoint base)
                           \<longrightarrow> ss ! k = states ctx ! k)
                    \<longrightarrow> (\<exists>ctx1'. b2WarmStartWeldJoint E base (ctx\<lparr> states := ss \<rparr>) = Inr ctx1'
                          \<and> (\<forall>k. int k = indexA (weldJoint base) \<or> int k = indexB (weldJoint base)
                                 \<longrightarrow> states ctx1' ! k = states ctx1 ! k)))"
  proof -
    from warm_start_frame [OF iA iB, of E] obtain ctx1 where
      c: "b2WarmStartWeldJoint E base ctx = Inr ctx1" "world ctx1 = world ctx"
         "length (states ctx1) = length (states ctx)"
         "\<forall>k. int k \<noteq> indexA (weldJoint base) \<and> int k \<noteq> indexB (weldJoint base)
                 \<longrightarrow> states ctx1 ! k = states ctx ! k"
      by blast
    have "\<exists>ctx1'. b2WarmStartWeldJoint E base (ctx\<lparr> states := ss \<rparr>) = Inr ctx1'
                  \<and> (\<forall>k. int k = indexA (weldJoint base) \<or> int k = indexB (weldJoint base)
                         \<longrightarrow> states ctx1' ! k = states ctx1 ! k)"
      if "length ss = length (states ctx)"
         "\<forall>k. int k = indexA (weldJoint base) \<or> int k = indexB (weldJoint base)
               \<longrightarrow> ss ! k = states ctx ! k" for ss
      using warm_start_reads [OF iA iB that, of E] c(1) by auto
    with c show ?thesis by auto
  qed
  have ty: "B2_ASSERT E (type base = b2_weldJoint)" by (rule r(3))
  have solve: "\<exists>base2 ctx2. b2SolveWeldJoint E base ctx useBias = Inr (base2, ctx2)
             \<and> world ctx2 = world ctx
             \<and> length (states ctx2) = length (states ctx)
             \<and> (\<forall>k. \<not> (int k = indexA (weldJoint base) \<or> int k = indexB (weldJoint base))
                    \<longrightarrow> states ctx2 ! k = states ctx ! k)
             \<and> (\<forall>ss. length ss = length (states ctx)
                    \<and> (\<forall>k. int k = indexA (weldJoint base) \<or> int k = indexB (weldJoint base)
                           \<longrightarrow> ss ! k = states ctx ! k)
                    \<longrightarrow> (\<exists>ctx2'. b2SolveWeldJoint E base (ctx\<lparr> states := ss \<rparr>) useBias = Inr (base2, ctx2')
                          \<and> (\<forall>k. int k = indexA (weldJoint base) \<or> int k = indexB (weldJoint base)
                                 \<longrightarrow> states ctx2' ! k = states ctx2 ! k)))"
  proof -
    from solve_frame [OF ty iA iB, of useBias] obtain base2 ctx2 where
      c: "b2SolveWeldJoint E base ctx useBias = Inr (base2, ctx2)" "world ctx2 = world ctx"
         "length (states ctx2) = length (states ctx)"
         "\<forall>k. int k \<noteq> indexA (weldJoint base) \<and> int k \<noteq> indexB (weldJoint base)
                 \<longrightarrow> states ctx2 ! k = states ctx ! k"
      by blast
    have "\<exists>ctx2'. b2SolveWeldJoint E base (ctx\<lparr> states := ss \<rparr>) useBias = Inr (base2, ctx2')
                  \<and> (\<forall>k. int k = indexA (weldJoint base) \<or> int k = indexB (weldJoint base)
                         \<longrightarrow> states ctx2' ! k = states ctx2 ! k)"
      if "length ss = length (states ctx)"
         "\<forall>k. int k = indexA (weldJoint base) \<or> int k = indexB (weldJoint base)
               \<longrightarrow> ss ! k = states ctx ! k" for ss
      using solve_reads [OF ty iA iB that, of useBias] c(1) by auto
    with c show ?thesis by auto
  qed
  show ?thesis
    using r(1,2) warm solve unfolding mine by simp
qed

theorem weld_passes_touch_awake_states_only_witness:
  "\<exists>base ctx1 base2 ctx2.
      b2PrepareWeldJoint scene_env (scene_joint 0 2) (scene_ctx True) = Inr base
    \<and> indexA (weldJoint base) = B2_NULL_INDEX
    \<and> indexB (weldJoint base) = 1
    \<and> b2WarmStartWeldJoint scene_env base (scene_ctx True) = Inr ctx1
    \<and> world ctx1 = scene_world
    \<and> states ctx1 ! 0 = scene_state 1 2 3
    \<and> b2SolveWeldJoint scene_env base (scene_ctx True) True = Inr (base2, ctx2)
    \<and> world ctx2 = scene_world
    \<and> states ctx2 ! 0 = scene_state 1 2 3"
proof -
  obtain base where prep: "b2PrepareWeldJoint scene_env (scene_joint 0 2) (scene_ctx True) = Inr base"
    using scene_prepare_ground [of True] by blast
  have bodyA: "b2Array_Get (bodies (world (scene_ctx True))) (bodyIdA (scene_joint 0 2))
               = Inr \<lparr> setIndex = b2_staticSet, localIndex = 0 \<rparr>"
    by (simp add: scene_defs)
  have bodyB: "b2Array_Get (bodies (world (scene_ctx True))) (bodyIdB (scene_joint 0 2))
               = Inr \<lparr> setIndex = b2_awakeSet, localIndex = 1 \<rparr>"
    by (simp add: scene_defs)
  have okA: "0 \<le> localIndex \<lparr> setIndex = b2_staticSet, localIndex = 0 \<rparr>
             \<and> localIndex \<lparr> setIndex = b2_staticSet, localIndex = 0 \<rparr>
                 < int (length (states (scene_ctx True)))"
    by (simp add: scene_ctx_def)
  have okB: "0 \<le> localIndex \<lparr> setIndex = b2_awakeSet, localIndex = 1 \<rparr>
             \<and> localIndex \<lparr> setIndex = b2_awakeSet, localIndex = 1 \<rparr>
                 < int (length (states (scene_ctx True)))"
    by (simp add: scene_ctx_def)
  have st: "world (scene_ctx True) = scene_world" "states (scene_ctx True) ! 0 = scene_state 1 2 3"
    by (simp_all add: scene_ctx_def)
  show ?thesis
    using weld_passes_touch_awake_states_only [OF prep bodyA bodyB okA okB, of True] prep st
    by (auto simp: b2_staticSet_def b2_awakeSet_def)
qed

text \<open>
  C5. The reported force of a weld joint is its accumulated linear impulse scaled,
  component by component, by the inverse substep time \<open>inv_h\<close> stored in the world, and
  the reported torque is the accumulated angular impulse scaled by \<open>inv_h\<close>. For a
  non-negative \<open>inv_h\<close>, the test that fires a joint event compares exactly the size of
  that force with the force threshold and the size of that torque with the torque
  threshold.
\<close>

theorem weld_joint_reaction:
  "b2GetWeldJointForce w base =
     \<lparr> x = inv_h w * x (linearImpulse (weldJoint base)),
       y = inv_h w * y (linearImpulse (weldJoint base)) \<rparr>
   \<and> b2GetWeldJointTorque w base = inv_h w * angularImpulse (weldJoint base)
   \<and> (0 \<le> inv_h w \<longrightarrow>
        b2JointEventTest (inv_h w) base forceThreshold torqueThreshold =
          (b2Length (b2GetWeldJointForce w base) > forceThreshold
           \<or> \<bar>b2GetWeldJointTorque w base\<bar> > torqueThreshold))"
proof (intro conjI impI)
  show "b2GetWeldJointForce w base =
     \<lparr> x = inv_h w * x (linearImpulse (weldJoint base)),
       y = inv_h w * y (linearImpulse (weldJoint base)) \<rparr>"
    by (simp add: b2GetWeldJointForce_def b2MulSV_def)
  show "b2GetWeldJointTorque w base = inv_h w * angularImpulse (weldJoint base)"
    by (simp add: b2GetWeldJointTorque_def)
next
  assume nn: "0 \<le> inv_h w"
  have f: "b2Length (b2GetWeldJointForce w base) = b2Length (linearImpulse (weldJoint base)) * inv_h w"
    using nn by (simp add: b2GetWeldJointForce_def b2Length_MulSV)
  have t: "\<bar>b2GetWeldJointTorque w base\<bar> = \<bar>angularImpulse (weldJoint base)\<bar> * inv_h w"
    using nn by (simp add: b2GetWeldJointTorque_def abs_mult)
  show "b2JointEventTest (inv_h w) base forceThreshold torqueThreshold =
          (b2Length (b2GetWeldJointForce w base) > forceThreshold
           \<or> \<bar>b2GetWeldJointTorque w base\<bar> > torqueThreshold)"
    unfolding f t by (simp add: b2JointEventTest_def)
qed

theorem weld_joint_reaction_witness:
  "0 \<le> inv_h scene_world
   \<and> b2GetWeldJointForce scene_world (scene_joint 1 2) = \<lparr> x = 480, y = - 240 \<rparr>
   \<and> b2GetWeldJointTorque scene_world (scene_joint 1 2) = 1200
   \<and> b2JointEventTest (inv_h scene_world) (scene_joint 1 2) 10000 1000
   \<and> (b2Length (b2GetWeldJointForce scene_world (scene_joint 1 2)) > 10000
      \<or> \<bar>b2GetWeldJointTorque scene_world (scene_joint 1 2)\<bar> > 1000)"
proof -
  have nn: "0 \<le> inv_h scene_world"
    by (simp add: scene_world_def)
  have t: "b2GetWeldJointTorque scene_world (scene_joint 1 2) = 1200"
    by (simp add: b2GetWeldJointTorque_def scene_world_def scene_joint_def)
  show ?thesis
    using weld_joint_reaction [of scene_world "scene_joint 1 2" 10000 1000] nn t
    by (simp add: scene_world_def scene_joint_def)
qed

text \<open>
  C2, as amended. Where assertions are enabled, each of the four setters stops at its
  entry assertion for an argument that \<open>b2IsValidFloat\<close> refuses (NaN, infinite) or that
  is negative: the call ends in the assertion failure and the joint is not written.
\<close>

theorem weld_setters_assert_invalid:
  assumes on: "assertsEnabled E"
      and bad: "\<not> (b2IsValidFloat E v \<and> 0 \<le> v)"
  shows "b2WeldJoint_SetLinearHertz E joint v = Inl AssertionFailure
       \<and> b2WeldJoint_SetLinearDampingRatio E joint v = Inl AssertionFailure
       \<and> b2WeldJoint_SetAngularHertz E joint v = Inl AssertionFailure
       \<and> b2WeldJoint_SetAngularDampingRatio E joint v = Inl AssertionFailure"
  using on bad
  by (simp add: b2WeldJoint_SetLinearHertz_def b2WeldJoint_SetLinearDampingRatio_def
        b2WeldJoint_SetAngularHertz_def b2WeldJoint_SetAngularDampingRatio_def B2_ASSERT_def)

theorem weld_setters_assert_invalid_witness:
  "assertsEnabled scene_env
   \<and> \<not> (b2IsValidFloat scene_env (- 1) \<and> (0::real) \<le> - 1)
   \<and> b2WeldJoint_SetLinearHertz scene_env (scene_joint 1 2) (- 1) = Inl AssertionFailure
   \<and> b2WeldJoint_SetLinearDampingRatio scene_env (scene_joint 1 2) (- 1) = Inl AssertionFailure
   \<and> b2WeldJoint_SetAngularHertz scene_env (scene_joint 1 2) (- 1) = Inl AssertionFailure
   \<and> b2WeldJoint_SetAngularDampingRatio scene_env (scene_joint 1 2) (- 1) = Inl AssertionFailure"
proof -
  have on: "assertsEnabled scene_env"
    by (simp add: scene_env_def)
  have bad: "\<not> (b2IsValidFloat scene_env (- 1) \<and> (0::real) \<le> - 1)"
    by simp
  show ?thesis
    using weld_setters_assert_invalid [OF on bad, of "scene_joint 1 2"] on bad by simp
qed

text \<open>
  C2, as stated, fails where assertions are compiled out: the setter then stores a
  negative stiffness.
\<close>

theorem weld_setter_unchecked_counterexample:
  "b2WeldJoint_GetLinearHertz (scene_joint 1 2) = 0
   \<and> b2WeldJoint_SetLinearHertz (scene_env\<lparr> assertsEnabled := False \<rparr>) (scene_joint 1 2) (- 1)
       = Inr ((scene_joint 1 2)\<lparr> weldJoint := (weldJoint (scene_joint 1 2))\<lparr> linearHertz := - 1 \<rparr> \<rparr>)
   \<and> b2WeldJoint_GetLinearHertz
        ((scene_joint 1 2)\<lparr> weldJoint := (weldJoint (scene_joint 1 2))\<lparr> linearHertz := - 1 \<rparr> \<rparr>) = - 1"
  by (simp add: b2WeldJoint_SetLinearHertz_def b2WeldJoint_GetLinearHertz_def B2_ASSERT_def
        scene_joint_def)

text \<open>
  C8. However many constraints have become active, the graph has 24 colours besides the
  overflow colour, every active constraint sits in one of the colours or in the overflow
  colour, and within any one of the 24 colours no two constraints share a dynamic body.
\<close>

theorem graph_colors_disjoint:
  "length (colors (b2BuildGraph dynamic ks)) = 24
   \<and> set (concat (colors (b2BuildGraph dynamic ks))) \<union> set (overflow (b2BuildGraph dynamic ks)) = set ks
   \<and> (\<forall>i < 24. \<forall>p q. p < q \<and> q < length (colors (b2BuildGraph dynamic ks) ! i) \<longrightarrow>
         \<not> b2ShareBody dynamic (colors (b2BuildGraph dynamic ks) ! i ! p)
                               (colors (b2BuildGraph dynamic ks) ! i ! q))"
proof -
  have "b2GraphInvariant dynamic (b2BuildGraph dynamic ks)"
    unfolding b2BuildGraph_def by (rule b2GraphInvariant_foldl [OF b2GraphInvariant_empty])
  moreover have "set (concat (colors (b2BuildGraph dynamic ks))) \<union> set (overflow (b2BuildGraph dynamic ks)) = set ks"
    unfolding b2BuildGraph_def
    using foldl_placed [of b2EmptyGraph dynamic ks] by (simp add: b2EmptyGraph_def)
  ultimately show ?thesis
    by (simp add: b2GraphInvariant_def B2_GRAPH_COLOR_COUNT_def)
qed

theorem graph_colors_disjoint_witness:
  "colors (b2BuildGraph (\<lambda>body. body \<noteq> 0) [(0, 1), (0, 2), (1, 2), (3, 4)]) ! 0
     = [(3, 4), (0, 2), (0, 1)]
   \<and> colors (b2BuildGraph (\<lambda>body. body \<noteq> 0) [(0, 1), (0, 2), (1, 2), (3, 4)]) ! 1 = [(1, 2)]
   \<and> (0::nat) < 24 \<and> (1::nat) < 2 \<and> 2 < length [(3::nat, 4::nat), (0, 2), (0, 1)]
   \<and> \<not> b2ShareBody (\<lambda>body. body \<noteq> 0) (0, 2) (0, 1)"
proof -
  let ?dynamic = "\<lambda>body::nat. body \<noteq> 0"
  let ?g = "b2BuildGraph ?dynamic [(0, 1), (0, 2), (1, 2), (3, 4)]"
  have c0: "colors ?g ! 0 = [(3, 4), (0, 2), (0, 1)]"
    by code_simp
  have c1: "colors ?g ! 1 = [(1, 2)]"
    by code_simp
  from graph_colors_disjoint [of ?dynamic "[(0, 1), (0, 2), (1, 2), (3, 4)]"]
  have "\<forall>p q. p < q \<and> q < length (colors ?g ! 0) \<longrightarrow>
          \<not> b2ShareBody ?dynamic (colors ?g ! 0 ! p) (colors ?g ! 0 ! q)"
    by simp
  then have "1 < (2::nat) \<and> 2 < length (colors ?g ! 0) \<longrightarrow>
          \<not> b2ShareBody ?dynamic (colors ?g ! 0 ! 1) (colors ?g ! 0 ! 2)"
    by blast
  then have "\<not> b2ShareBody ?dynamic (0, 2) (0, 1)"
    unfolding c0 by simp
  then show ?thesis
    using c0 c1 by simp
qed

end
